theory Spec2Isabelle
  imports Complex_Main "HOL-Library.Multiset"
begin

section \<open>Floating-point numbers\<close>

text \<open>
  A Python float is an IEEE 754 double, and a component of a Vector, an Euler or a Matrix
  of mathutils is an IEEE 754 single. A finite float is modelled as the real number it
  stands for, and an arithmetic operation as the exact operation on the reals followed by
  rounding to the nearest float, ties to the even significand, with gradual underflow.

  \<open>round_float prec emin\<close> rounds to the floats of \<open>prec\<close> significant bits whose
  least normal exponent is \<open>emin\<close>: around \<open>x\<close> the floats are the multiples of
  \<open>2 powi (e - prec + 1)\<close>, where \<open>e\<close> is the binary exponent of \<open>x\<close>, or \<open>emin\<close> when
  \<open>x\<close> is subnormal. The exponent has no upper bound: infinities and NaN are not
  modelled, so the model is the code as long as no result exceeds the largest finite
  float.
\<close>

definition round_to_even :: "real \<Rightarrow> int" where
  "round_to_even x =
     (let n = \<lfloor>x\<rfloor>; r = x - of_int n
      in if r < 1 / 2 then n else if 1 / 2 < r then n + 1 else if even n then n else n + 1)"

definition round_float :: "int \<Rightarrow> int \<Rightarrow> real \<Rightarrow> real" where
  "round_float prec emin x =
     (if x = 0 then 0
      else let e = max \<lfloor>log 2 \<bar>x\<bar>\<rfloor> emin;
               ulp = 2 powi (e - prec + 1)
           in of_int (round_to_even (x / ulp)) * ulp)"

text \<open>Rounding to single and to double precision.\<close>

definition fl32 :: "real \<Rightarrow> real" where
  "fl32 = round_float 24 (- 126)"

definition fl64 :: "real \<Rightarrow> real" where
  "fl64 = round_float 53 (- 1022)"

section \<open>Unit and space converter (common/coordinate\_converter.py)\<close>

text \<open>
  A Vector of three components is a triple. \<open>vector\<close> is the constructor \<open>Vector(pos)\<close>,
  which stores every component as a single, and \<open>vec_scale\<close> is the product of a Vector
  and a Python number: mathutils converts the number to a single and rounds every product
  to a single. The literal \<open>0.01\<close> is the double nearest to 1/100. Reading the components
  of a Vector back as Python floats, as the slice \<open>[:]\<close> does, changes no value.
\<close>

type_synonym vec3 = "real \<times> real \<times> real"
type_synonym vec2 = "real \<times> real"

definition vector :: "vec3 \<Rightarrow> vec3" where
  "vector v = (case v of (x, y, z) \<Rightarrow> (fl32 x, fl32 y, fl32 z))"

definition vec_scale :: "vec3 \<Rightarrow> real \<Rightarrow> vec3" where
  "vec_scale v k =
     (case v of (x, y, z) \<Rightarrow> (fl32 (x * fl32 k), fl32 (y * fl32 k), fl32 (z * fl32 k)))"

definition pos_cm_to_m :: "vec3 \<Rightarrow> vec3" where
  "pos_cm_to_m pos = vec_scale (vector pos) (fl64 (1 / 100))"

definition pos_to_blender :: "vec3 \<Rightarrow> vec3" where
  "pos_to_blender pos = vector pos"

definition pos_scaled_to_blender :: "vec3 \<Rightarrow> vec3" where
  "pos_scaled_to_blender pos = pos_cm_to_m (pos_to_blender pos)"

text \<open>
  \<open>math.radians\<close> on each of the three stored angles: the product with the double
  \<open>pi / 180\<close>, in doubles. The Euler made of the three results keeps them as singles.
\<close>

definition radians :: "real \<Rightarrow> real" where
  "radians x = fl64 (x * fl64 (fl64 pi / 180))"

definition rot_to_blender :: "vec3 \<Rightarrow> vec3" where
  "rot_to_blender rot =
     (case rot of (x, y, z) \<Rightarrow> (fl32 (radians x), fl32 (radians y), fl32 (radians z)))"

text \<open>The subtraction \<open>1.0 - uv[1]\<close> is one of Python floats, so of doubles.\<close>

definition uv_to_blender :: "vec2 \<Rightarrow> vec2" where
  "uv_to_blender uv = (fst uv, fl64 (1 - snd uv))"

definition pos_m_to_cm :: "vec3 \<Rightarrow> vec3" where
  "pos_m_to_cm pos = vec_scale pos 100"

definition pos_from_blender :: "vec3 \<Rightarrow> vec3" where
  "pos_from_blender pos = pos"

definition pos_scaled_from_blender :: "vec3 \<Rightarrow> vec3" where
  "pos_scaled_from_blender pos = pos_from_blender (vector (pos_m_to_cm pos))"

definition uv_from_blender :: "vec2 \<Rightarrow> vec2" where
  "uv_from_blender uv = (fst uv, fl64 (1 - snd uv))"

text \<open>Largest componentwise distance of two positions, for tolerance statements.\<close>

definition max_abs_diff :: "vec3 \<Rightarrow> vec3 \<Rightarrow> real" where
  "max_abs_diff p q =
     (case p of (a, b, c) \<Rightarrow> case q of (x, y, z) \<Rightarrow>
        max \<bar>a - x\<bar> (max \<bar>b - y\<bar> \<bar>c - z\<bar>))"

section \<open>Texture pages (exporter.py, export\_collection)\<close>

text \<open>
  The bytes of a file are a list of characters (an Isabelle character is one byte); the
  file system maps the path of every regular file to its contents, so \<open>os.path.isfile\<close>
  is membership in its domain.
\<close>

type_synonym bytes = "char list"
type_synonym filesystem = "string \<rightharpoonup> bytes"

record nucc_chunk_texture =
  tex_filePath :: string
  tex_name :: string
  nut_data :: bytes

text \<open>One entry of the clump properties' texture chunk list.\<close>

record texture_chunk_pg =
  tc_include :: bool
  tc_nut_path :: string
  tc_path :: string
  tc_texture_name :: string

text \<open>The messages the exporter prints; each carries the name it prints.\<close>

datatype diagnostic =
    NutSkipped string
  | MeshNoValidFaces string
  | MeshTooManyVertices string nat nat
  | MeshTooManyFaces string nat nat
  | MeshNoMaterial string
  | NudNoMeshes string

text \<open>The sanity check of line 218: more than four bytes, the first four being the magic.\<close>

definition valid_nut :: "bytes \<Rightarrow> bool" where
  "valid_nut d \<longleftrightarrow> length d > 4 \<and> take 4 d = ''NTP3''"

text \<open>
  One iteration of the loop over the texture chunks. \<open>add_page\<close> is the container
  library's \<open>Xfbin.add_chunk_page\<close>, which is not part of this repository's sources;
  \<open>x\<close> is the container being assembled. The result is the container and the
  diagnostics printed by this iteration.
\<close>

definition export_texture_chunk ::
  "(nucc_chunk_texture \<Rightarrow> 'x \<Rightarrow> 'x) \<Rightarrow> filesystem \<Rightarrow> texture_chunk_pg \<Rightarrow> 'x
    \<Rightarrow> 'x \<times> diagnostic list" where
  "export_texture_chunk add_page fs tc x =
     (if tc_include tc \<and> tc_nut_path tc \<noteq> [] then
        (case fs (tc_nut_path tc) of
           None \<Rightarrow> (x, [])
         | Some d \<Rightarrow>
             if \<not> valid_nut d then (x, [NutSkipped (tc_texture_name tc)])
             else (add_page \<lparr>tex_filePath = tc_path tc, tex_name = tc_texture_name tc,
                               nut_data = d\<rparr> x, []))
      else (x, []))"

fun export_texture_chunks ::
  "(nucc_chunk_texture \<Rightarrow> 'x \<Rightarrow> 'x) \<Rightarrow> filesystem \<Rightarrow> texture_chunk_pg list \<Rightarrow> 'x
    \<Rightarrow> 'x \<times> diagnostic list" where
  "export_texture_chunks add_page fs [] x = (x, [])"
| "export_texture_chunks add_page fs (tc # tcs) x =
     (case export_texture_chunk add_page fs tc x of
        (x', ds) \<Rightarrow>
          (case export_texture_chunks add_page fs tcs x' of
             (x'', ds') \<Rightarrow> (x'', ds @ ds')))"

section \<open>Mesh export (exporter.py, make\_models)\<close>

subsection \<open>Bone index table\<close>

text \<open>
  The dictionary comprehension over \<open>enumerate\<close> of the coordinate chunk names: a name
  that occurs twice keeps the index written last.
\<close>

definition coord_indices_dict :: "string list \<Rightarrow> (string \<rightharpoonup> nat)" where
  "coord_indices_dict names =
     foldl (\<lambda>d (i, name). d(name \<mapsto> i)) Map.empty (List.enumerate 0 names)"

text \<open>\<open>dict.get(key, default)\<close>.\<close>

definition dict_get :: "('k \<rightharpoonup> 'v) \<Rightarrow> 'k \<Rightarrow> 'v \<Rightarrow> 'v" where
  "dict_get d k dflt = (case d k of None \<Rightarrow> dflt | Some v \<Rightarrow> v)"

subsection \<open>Weight resolver\<close>

text \<open>
  The first component of an element of \<open>b_weights\<close> is the name of a vertex group, or,
  in the padding tuple \<open>(0, 0.0)\<close>, the integer 0, which is never a key of the bone
  index table (its keys are strings).
\<close>

datatype bone_key = BoneName string | PadZero

definition bone_index :: "(string \<rightharpoonup> nat) \<Rightarrow> bone_key \<Rightarrow> nat" where
  "bone_index d k = (case k of BoneName n \<Rightarrow> dict_get d n 0 | PadZero \<Rightarrow> 0)"

text \<open>
  Lines 497 to 503. \<open>items\<close> are the (vertex group index, weight) pairs of the vertex
  in the deform layer and \<open>v_groups b\<close> is the name of the vertex group of index \<open>b\<close>
  (the deform layer only holds indices of groups of the same object). The sort key
  \<open>1 - i[1]\<close> is a difference of Python floats, so it is rounded to a double.
  Python's \<open>sorted\<close> is stable, as \<open>sort_key\<close> is.
\<close>

definition make_b_weights ::
  "(nat \<Rightarrow> string) \<Rightarrow> (string \<rightharpoonup> nat) \<Rightarrow> (nat \<times> real) list \<Rightarrow> (bone_key \<times> real) list" where
  "make_b_weights v_groups d items =
     (let b_weights =
            map (\<lambda>(b, w). (BoneName (v_groups b), w))
              (filter (\<lambda>(b, w). d (v_groups b) \<noteq> None)
                 (sort_key (\<lambda>i. fl64 (1 - snd i)) items))
      in if length b_weights > 4 then take 4 b_weights
         else if length b_weights < 4
           then b_weights @ replicate (4 - length b_weights) (PadZero, 0)
         else b_weights)"

text \<open>\<open>sum\<close> of Python floats: it adds from the left, starting from 0, in doubles.\<close>

definition float_sum :: "real list \<Rightarrow> real" where
  "float_sum ws = foldl (\<lambda>s w. fl64 (s + w)) 0 ws"

text \<open>
  Lines 505 to 511: the bone ids and the bone weights of the vertex. The quotient
  \<open>bw[1] / weight_sum\<close> is one of doubles.
\<close>

definition resolve_weights ::
  "(nat \<Rightarrow> string) \<Rightarrow> (string \<rightharpoonup> nat) \<Rightarrow> (nat \<times> real) list \<Rightarrow> nat list \<times> real list" where
  "resolve_weights v_groups d items =
     (let b_weights = make_b_weights v_groups d items;
          weight_sum = float_sum (map snd b_weights)
      in if weight_sum > 0
         then (map (\<lambda>bw. bone_index d (fst bw)) b_weights,
               map (\<lambda>bw. fl64 (snd bw / weight_sum)) b_weights)
         else (replicate 4 0, replicate 3 0 @ [1]))"

subsection \<open>Vertices and faces\<close>

text \<open>
  A loop (face corner) of the triangulated mesh, with what the exporter reads from it.
  An attribute whose layer the mesh does not have is \<open>None\<close>.
\<close>

record bm_loop =
  vert_index :: nat
  vert_co :: vec3
  vert_normal :: vec3
  loop_tangent :: vec3
  loop_color :: "real list option"
  loop_uv1 :: "vec2 option"
  loop_uv2 :: "vec2 option"
  vert_deform :: "(nat \<times> real) list option"

record nud_vertex =
  position :: vec3
  normal :: vec3
  tangent :: vec3
  bitangent :: vec3
  color :: "int list"
  uv :: "vec2 list"
  bone_ids :: "nat list"
  bone_weights :: "real list"

text \<open>
  \<open>Vector.cross\<close>: every product and every difference is rounded to a single.
\<close>

definition cross :: "vec3 \<Rightarrow> vec3 \<Rightarrow> vec3" where
  "cross a b =
     (case a of (a1, a2, a3) \<Rightarrow> case b of (b1, b2, b3) \<Rightarrow>
        (fl32 (fl32 (a2 * b3) - fl32 (a3 * b2)),
         fl32 (fl32 (a3 * b1) - fl32 (a1 * b3)),
         fl32 (fl32 (a1 * b2) - fl32 (a2 * b1))))"

text \<open>Python's \<open>int\<close> of a float truncates towards zero.\<close>

definition py_int :: "real \<Rightarrow> int" where
  "py_int x = (if 0 \<le> x then \<lfloor>x\<rfloor> else \<lceil>x\<rceil>)"

definition option_list :: "'a option \<Rightarrow> 'a list" where
  "option_list ov = (case ov of None \<Rightarrow> [] | Some v \<Rightarrow> [v])"

text \<open>
  Lines 466 to 511: the vertex made from the first loop that reaches a mesh vertex. The
  product \<open>x * 255\<close> is one of doubles.
\<close>

definition make_vertex :: "(nat \<Rightarrow> string) \<Rightarrow> (string \<rightharpoonup> nat) \<Rightarrow> bm_loop \<Rightarrow> nud_vertex" where
  "make_vertex v_groups d l =
     (let n = pos_from_blender (vert_normal l);
          t = pos_from_blender (loop_tangent l);
          bw = (case vert_deform l of
                  None \<Rightarrow> ([], [])
                | Some items \<Rightarrow> resolve_weights v_groups d items)
      in \<lparr>position = pos_scaled_from_blender (vert_co l),
          normal = n,
          tangent = t,
          bitangent = cross (vector n) (vector t),
          color = (case loop_color l of
                     None \<Rightarrow> []
                   | Some c \<Rightarrow> map (\<lambda>x. py_int (fl64 (x * 255))) c),
          uv = map uv_from_blender (option_list (loop_uv1 l) @ option_list (loop_uv2 l)),
          bone_ids = fst bw,
          bone_weights = snd bw\<rparr>)"

type_synonym loop_triangle = "bm_loop \<times> bm_loop \<times> bm_loop"
type_synonym face = "nat \<times> nat \<times> nat"

text \<open>
  The state of the loop over the triangles: \<open>vertex_indices_dict\<close> as the list of its
  items in insertion order (its length is \<open>len(vertex_indices_dict)\<close>), the vertices and
  the faces.
\<close>

record mesh_acc =
  vertex_indices_dict :: "(nat \<times> nat) list"
  acc_vertices :: "nud_vertex list"
  acc_faces :: "face list"

definition empty_mesh_acc :: mesh_acc where
  "empty_mesh_acc = \<lparr>vertex_indices_dict = [], acc_vertices = [], acc_faces = []\<rparr>"

text \<open>The body of the inner loop, lines 461 to 511.\<close>

definition add_loop :: "(nat \<Rightarrow> string) \<Rightarrow> (string \<rightharpoonup> nat) \<Rightarrow> mesh_acc \<Rightarrow> bm_loop \<Rightarrow> mesh_acc" where
  "add_loop v_groups d acc l =
     (if map_of (vertex_indices_dict acc) (vert_index l) = None
      then acc\<lparr>vertex_indices_dict :=
                 vertex_indices_dict acc @ [(vert_index l, length (vertex_indices_dict acc))],
               acc_vertices := acc_vertices acc @ [make_vertex v_groups d l]\<rparr>
      else acc)"

text \<open>
  \<open>vertex_indices_dict[l.vert.index]\<close> at line 514. The three loops of the triangle
  have just been entered, so the key is present (lemma \<open>add_triangle_faces\<close> below shows
  it); the lookup is written with \<open>the\<close>.
\<close>

definition remap :: "(nat \<times> nat) list \<Rightarrow> bm_loop \<Rightarrow> nat" where
  "remap dict l = the (map_of dict (vert_index l))"

text \<open>The body of the outer loop, lines 458 to 514: every triangle appends one face.\<close>

definition add_triangle ::
  "(nat \<Rightarrow> string) \<Rightarrow> (string \<rightharpoonup> nat) \<Rightarrow> mesh_acc \<Rightarrow> loop_triangle \<Rightarrow> mesh_acc" where
  "add_triangle v_groups d acc tri =
     (case tri of (l1, l2, l3) \<Rightarrow>
        let acc' = add_loop v_groups d (add_loop v_groups d (add_loop v_groups d acc l1) l2) l3;
            dict = vertex_indices_dict acc'
        in acc'\<lparr>acc_faces := acc_faces acc' @ [(remap dict l1, remap dict l2, remap dict l3)]\<rparr>)"

definition build_mesh ::
  "(nat \<Rightarrow> string) \<Rightarrow> (string \<rightharpoonup> nat) \<Rightarrow> loop_triangle list \<Rightarrow> mesh_acc" where
  "build_mesh v_groups d tris = foldl (add_triangle v_groups d) empty_mesh_acc tris"

subsection \<open>Sub-meshes and models\<close>

datatype object_type = ARMATURE | EMPTY | MESH | OTHER

text \<open>
  A child object of an empty, with what the exporter reads from it: its evaluated mesh
  as the list of loop triangles (after the transform by the mesh bone), the number of
  faces of the BMesh, the names of its vertex groups by index, and the name of the XFBIN
  material in its mesh properties. The vertex, bone and UV formats and the NUD materials
  are copied from the properties and are left out.
\<close>

record mesh_object =
  mo_name :: string
  mo_type :: object_type
  mo_loop_triangles :: "loop_triangle list"
  mo_bm_faces :: nat
  mo_vertex_groups :: "nat \<Rightarrow> string"
  mo_xfbin_material :: string

record nucc_chunk_material =
  mat_filePath :: string
  mat_name :: string

record nud_mesh =
  vertices :: "nud_vertex list"
  faces :: "face list"

text \<open>
  A model chunk: \<open>nud_meshes\<close> are the meshes of the single mesh group of its NUD.
\<close>

record nucc_chunk_model =
  model_filePath :: string
  model_name :: string
  coord_index :: nat
  material_chunks :: "nucc_chunk_material list"
  nud_meshes :: "nud_mesh list"

text \<open>
  One iteration of the loop over the mesh objects, lines 424 to 554, with the two
  capacity constants \<open>NudMesh.MAX_VERTICES\<close> and \<open>NudMesh.MAX_FACES\<close> of the container
  library as parameters. The result is what the iteration prints and, unless it ends in
  \<open>continue\<close>, the mesh and the material chunk it appends.
\<close>

definition make_nud_mesh ::
  "nat \<Rightarrow> nat \<Rightarrow> (string \<rightharpoonup> nat) \<Rightarrow> (string \<rightharpoonup> nucc_chunk_material) \<Rightarrow> mesh_object
    \<Rightarrow> diagnostic list \<times> (nud_mesh \<times> nucc_chunk_material) option" where
  "make_nud_mesh MAX_VERTICES MAX_FACES d xfbin_mats mesh_obj =
     (let acc = build_mesh (mo_vertex_groups mesh_obj) d (mo_loop_triangles mesh_obj);
          vs = acc_vertices acc;
          fs = acc_faces acc
      in if length vs < 3 then ([MeshNoValidFaces (mo_name mesh_obj)], None)
         else if length vs > MAX_VERTICES
           then ([MeshTooManyVertices (mo_name mesh_obj) (length vs) MAX_VERTICES], None)
         else if length fs > MAX_FACES
           then ([MeshTooManyFaces (mo_name mesh_obj) (mo_bm_faces mesh_obj) MAX_FACES], None)
         else (case xfbin_mats (mo_xfbin_material mesh_obj) of
                 None \<Rightarrow> ([MeshNoMaterial (mo_name mesh_obj)], None)
               | Some mat \<Rightarrow> ([], Some (\<lparr>vertices = vs, faces = fs\<rparr>, mat))))"

text \<open>The loop over the mesh objects: the diagnostics and the appended pairs, in order.\<close>

fun make_nud_meshes ::
  "nat \<Rightarrow> nat \<Rightarrow> (string \<rightharpoonup> nat) \<Rightarrow> (string \<rightharpoonup> nucc_chunk_material) \<Rightarrow> mesh_object list
    \<Rightarrow> diagnostic list \<times> (nud_mesh \<times> nucc_chunk_material) list" where
  "make_nud_meshes MAX_VERTICES MAX_FACES d xfbin_mats [] = ([], [])"
| "make_nud_meshes MAX_VERTICES MAX_FACES d xfbin_mats (m # ms) =
     (case make_nud_mesh MAX_VERTICES MAX_FACES d xfbin_mats m of
        (ds, r) \<Rightarrow>
          (case make_nud_meshes MAX_VERTICES MAX_FACES d xfbin_mats ms of
             (ds', rs) \<Rightarrow> (ds @ ds', option_list r @ rs)))"

text \<open>
  A child object of the armature, with the NUD properties the exporter reads. The
  rigging flags, material flags and bounding spheres are copied and are left out.
\<close>

record empty_object =
  eo_name :: string
  eo_type :: object_type
  eo_mesh_bone :: string
  eo_children :: "mesh_object list"

text \<open>Lines 384 to 561: the model built from an empty, or none when no mesh is left.\<close>

definition build_model ::
  "nat \<Rightarrow> nat \<Rightarrow> string \<Rightarrow> (string \<rightharpoonup> nat) \<Rightarrow> (string \<rightharpoonup> nucc_chunk_material)
    \<Rightarrow> empty_object \<Rightarrow> diagnostic list \<times> nucc_chunk_model list" where
  "build_model MAX_VERTICES MAX_FACES clump_path d xfbin_mats empty_obj =
     (case make_nud_meshes MAX_VERTICES MAX_FACES d xfbin_mats
             (filter (\<lambda>c. mo_type c = MESH) (eo_children empty_obj)) of
        (ds, rs) \<Rightarrow>
          if rs = [] then (ds @ [NudNoMeshes (eo_name empty_obj)], [])
          else (ds, [\<lparr>model_filePath = clump_path,
                      model_name = eo_name empty_obj,
                      coord_index = dict_get d (eo_mesh_bone empty_obj) 0,
                      material_chunks = map snd rs,
                      nud_meshes = map fst rs\<rparr>]))"

text \<open>\<open>list(dict.fromkeys(xs))\<close>: the first occurrence of every element, in order.\<close>

definition fromkeys_list :: "'a list \<Rightarrow> 'a list" where
  "fromkeys_list xs = foldl (\<lambda>acc x. if x \<in> set acc then acc else acc @ [x]) [] xs"

text \<open>
  The export settings of the operator; \<open>meshes_to_export\<close> are the (name, value) pairs
  of the collection property, and \<open>find\<close> on it is the first pair of that name.
\<close>

record export_settings =
  inject_to_xfbin :: bool
  export_meshes :: bool
  export_bones :: bool
  export_textures :: bool
  export_specific_meshes :: bool
  meshes_to_export :: "(string \<times> bool) list"

text \<open>
  One iteration of the loop over the empties, lines 370 to 561. \<open>old_all\<close> is
  \<open>old_clump_all_models\<close>, \<open>None\<close> when there is no old clump; an entry of it is a model
  or the null reference.
\<close>

definition make_model ::
  "export_settings \<Rightarrow> nat \<Rightarrow> nat \<Rightarrow> string \<Rightarrow> (string \<rightharpoonup> nat)
    \<Rightarrow> (string \<rightharpoonup> nucc_chunk_material) \<Rightarrow> nucc_chunk_model option list option
    \<Rightarrow> empty_object \<Rightarrow> diagnostic list \<times> nucc_chunk_model list" where
  "make_model S MAX_VERTICES MAX_FACES clump_path d xfbin_mats old_all empty_obj =
     (if export_specific_meshes S then
        (case map_of (meshes_to_export S) (eo_name empty_obj) of
           None \<Rightarrow> ([], [])
         | Some False \<Rightarrow>
             (case old_all of
                None \<Rightarrow> ([], [])
              | Some olds \<Rightarrow>
                  ([], take 1 (List.map_filter
                         (\<lambda>c. case c of None \<Rightarrow> None
                               | Some m \<Rightarrow> if model_name m = eo_name empty_obj then Some m else None)
                         olds)))
         | Some True \<Rightarrow> build_model MAX_VERTICES MAX_FACES clump_path d xfbin_mats empty_obj)
      else build_model MAX_VERTICES MAX_FACES clump_path d xfbin_mats empty_obj)"

fun make_models_loop ::
  "export_settings \<Rightarrow> nat \<Rightarrow> nat \<Rightarrow> string \<Rightarrow> (string \<rightharpoonup> nat)
    \<Rightarrow> (string \<rightharpoonup> nucc_chunk_material) \<Rightarrow> nucc_chunk_model option list option
    \<Rightarrow> empty_object list \<Rightarrow> diagnostic list \<times> nucc_chunk_model list" where
  "make_models_loop S MAX_VERTICES MAX_FACES clump_path d xfbin_mats old_all [] = ([], [])"
| "make_models_loop S MAX_VERTICES MAX_FACES clump_path d xfbin_mats old_all (e # es) =
     (case make_model S MAX_VERTICES MAX_FACES clump_path d xfbin_mats old_all e of
        (ds, ms) \<Rightarrow>
          (case make_models_loop S MAX_VERTICES MAX_FACES clump_path d xfbin_mats old_all es of
             (ds', ms') \<Rightarrow> (ds @ ds', ms @ ms')))"

section \<open>Chunk graph assembly (exporter.py, make\_clump and export\_collection)\<close>

text \<open>
  A Python list object held in a field: the address of the object, for claims about
  identity, and its elements. Assigning a list to a field copies the reference; a list
  the exporter builds is a new object at a fresh address.
\<close>

datatype 'a pyref = Ref (addr: nat) (elems: "'a list")

record nucc_chunk_coord =
  coord_filePath :: string
  coord_name :: string

text \<open>A model group; an entry is a model or the null reference. The flags are left out.\<close>

record clump_model_group =
  group_model_chunks :: "nucc_chunk_model option list"

record nucc_chunk_clump =
  clump_filePath :: string
  clump_name :: string
  coord_chunks :: "nucc_chunk_coord pyref"
  model_chunks :: "nucc_chunk_model option pyref"
  model_groups :: "clump_model_group pyref"

text \<open>
  An armature object with its clump properties: the path, the model names of the model
  list and of every model group, the material names and the texture chunks; and its
  children. \<open>arm_coords\<close> are the coordinate chunks that \<open>make_coords\<close> builds from the
  edit bones of the armature (the export direction of the bone hierarchy, whose matrix
  decomposition is outside these claims).
\<close>

record armature_object =
  arm_name :: string
  arm_type :: object_type
  cd_path :: string
  cd_models :: "string list"
  cd_model_groups :: "string list list"
  cd_materials :: "string list"
  cd_texture_chunks :: "texture_chunk_pg list"
  arm_children :: "empty_object list"
  arm_coords :: "nucc_chunk_coord list"

text \<open>
  The calls into the container library, which is not part of this repository's sources,
  are parameters: \<open>add_chunk_page\<close> and \<open>add_clump_page\<close> on the container,
  \<open>get_clump\<close> for the clump chunk of the page that \<open>get_chunk_page\<close> finds for a path
  and a name (\<open>None\<close> when there is no such page), \<open>new_xfbin\<close> for the empty container,
  and the two capacity constants of \<open>NudMesh\<close>.
\<close>

record 'x xfbin_lib =
  add_chunk_page :: "nucc_chunk_texture \<Rightarrow> 'x \<Rightarrow> 'x"
  add_clump_page :: "nucc_chunk_clump \<Rightarrow> 'x \<Rightarrow> 'x"
  get_clump :: "'x \<Rightarrow> string \<Rightarrow> string \<Rightarrow> nucc_chunk_clump option"
  new_xfbin :: "'x"
  MAX_VERTICES :: nat
  MAX_FACES :: nat

datatype export_error = CannotInject | CannotExportBones | CannotExportMeshes

text \<open>Line 242: the clump is named after the armature without the suffix \<open>' [C]'\<close>.\<close>

definition endswith :: "string \<Rightarrow> string \<Rightarrow> bool" where
  "endswith s suffix \<longleftrightarrow>
     length suffix \<le> length s \<and> drop (length s - length suffix) s = suffix"

definition clump_name_of :: "string \<Rightarrow> string" where
  "clump_name_of name = (if endswith name '' [C]'' then take (length name - 4) name else name)"

text \<open>Lines 367 and 368.\<close>

definition old_clump_all_models :: "nucc_chunk_clump \<Rightarrow> nucc_chunk_model option list" where
  "old_clump_all_models old =
     fromkeys_list (elems (model_chunks old)
                    @ concat (map group_model_chunks (elems (model_groups old))))"

text \<open>\<open>make_models\<close>, lines 358 to 563: the diagnostics printed and the list returned.\<close>

definition make_models ::
  "'x xfbin_lib \<Rightarrow> export_settings \<Rightarrow> empty_object list \<Rightarrow> string \<Rightarrow> nucc_chunk_coord list
    \<Rightarrow> nucc_chunk_clump option \<Rightarrow> (string \<rightharpoonup> nucc_chunk_material)
    \<Rightarrow> diagnostic list \<times> nucc_chunk_model list" where
  "make_models lib S empties clump_path coords old_clump xfbin_mats =
     make_models_loop S (MAX_VERTICES lib) (MAX_FACES lib) clump_path
       (coord_indices_dict (map coord_name coords))
       xfbin_mats (map_option old_clump_all_models old_clump) empties"

text \<open>A dictionary comprehension \<open>{key(v): val(v) for v in vs}\<close>: the last write wins.\<close>

definition dict_of :: "('a \<Rightarrow> 'k) \<Rightarrow> ('a \<Rightarrow> 'v) \<Rightarrow> 'a list \<Rightarrow> ('k \<rightharpoonup> 'v)" where
  "dict_of key val vs = foldl (\<lambda>d v. d(key v \<mapsto> val v)) Map.empty vs"

text \<open>Line 294, and line 279: the entries whose key is in the dictionary, looked up.\<close>

definition resolve_names :: "(string \<rightharpoonup> 'v) \<Rightarrow> string list \<Rightarrow> 'v list" where
  "resolve_names d names = List.map_filter d names"

text \<open>
  Lines 269 to 296, the branch of enabled mesh export: the model list and the model
  groups of the clump, with the diagnostics of \<open>make_models\<close>.
\<close>

definition make_model_lists ::
  "'x xfbin_lib \<Rightarrow> export_settings \<Rightarrow> armature_object \<Rightarrow> nucc_chunk_coord list
    \<Rightarrow> nucc_chunk_clump option
    \<Rightarrow> diagnostic list \<times> nucc_chunk_model option list \<times> clump_model_group list" where
  "make_model_lists lib S arm coords old_clump =
     (let xfbin_mats = dict_of id (\<lambda>n. \<lparr>mat_filePath = cd_path arm, mat_name = n\<rparr>)
                         (cd_materials arm)
      in case make_models lib S (filter (\<lambda>obj. eo_type obj = EMPTY) (arm_children arm))
                (cd_path arm) coords old_clump xfbin_mats of
           (ds, ms) \<Rightarrow>
             let model_dict = dict_of model_name Some ms;
                 model_dict' = model_dict(''None'' \<mapsto> None)
             in (ds, resolve_names model_dict (cd_models arm),
                 map (\<lambda>g. \<lparr>group_model_chunks = resolve_names model_dict' g\<rparr>)
                   (cd_model_groups arm)))"

text \<open>
  \<open>make_clump\<close>, lines 230 to 303. \<open>x\<close> is the container, \<open>fresh\<close> an address no
  object has yet. The result is the exception raised, or the clump with the diagnostics
  printed and the next fresh address.
\<close>

definition make_clump ::
  "'x xfbin_lib \<Rightarrow> export_settings \<Rightarrow> 'x \<Rightarrow> nat \<Rightarrow> armature_object
    \<Rightarrow> export_error + (nucc_chunk_clump \<times> diagnostic list \<times> nat)" where
  "make_clump lib S x fresh arm =
     (let name = clump_name_of (arm_name arm);
          old_clump = (if inject_to_xfbin S then get_clump lib x (cd_path arm) name else None)
      in case (if export_bones S then Inr (Ref fresh (arm_coords arm), Suc fresh)
               else case old_clump of
                      Some old \<Rightarrow> Inr (coord_chunks old, fresh)
                    | None \<Rightarrow> Inl CannotExportBones) of
           Inl e \<Rightarrow> Inl e
         | Inr (coords, fresh') \<Rightarrow>
             if export_meshes S then
               (case make_model_lists lib S arm (elems coords) old_clump of
                  (ds, models, groups) \<Rightarrow>
                    Inr (\<lparr>clump_filePath = cd_path arm, clump_name = name,
                          coord_chunks = coords,
                          model_chunks = Ref fresh' models,
                          model_groups = Ref (Suc fresh') groups\<rparr>, ds, Suc (Suc fresh')))
             else (case old_clump of
                     Some old \<Rightarrow>
                       Inr (\<lparr>clump_filePath = cd_path arm, clump_name = name,
                             coord_chunks = coords,
                             model_chunks = model_chunks old,
                             model_groups = model_groups old\<rparr>, [], fresh')
                   | None \<Rightarrow> Inl CannotExportMeshes))"

text \<open>The state of the loop of \<open>export_collection\<close> over the armatures.\<close>

record 'x export_state =
  es_xfbin :: 'x
  es_fresh :: nat
  es_diags :: "diagnostic list"

text \<open>One iteration, lines 208 to 225: the texture chunks, then the clump page.\<close>

definition export_armature ::
  "'x xfbin_lib \<Rightarrow> export_settings \<Rightarrow> filesystem \<Rightarrow> 'x export_state \<Rightarrow> armature_object
    \<Rightarrow> export_error + 'x export_state" where
  "export_armature lib S fs st arm =
     (case export_texture_chunks (add_chunk_page lib) fs (cd_texture_chunks arm) (es_xfbin st) of
        (x, ds) \<Rightarrow>
          (case make_clump lib S x (es_fresh st) arm of
             Inl e \<Rightarrow> Inl e
           | Inr (clump, ds', fresh') \<Rightarrow>
               Inr \<lparr>es_xfbin = add_clump_page lib clump x, es_fresh = fresh',
                    es_diags = es_diags st @ ds @ ds'\<rparr>))"

fun export_armatures ::
  "'x xfbin_lib \<Rightarrow> export_settings \<Rightarrow> filesystem \<Rightarrow> 'x export_state \<Rightarrow> armature_object list
    \<Rightarrow> export_error + 'x export_state" where
  "export_armatures lib S fs st [] = Inr st"
| "export_armatures lib S fs st (arm # arms) =
     (case export_armature lib S fs st arm of
        Inl e \<Rightarrow> Inl e
      | Inr st' \<Rightarrow> export_armatures lib S fs st' arms)"

text \<open>
  The outcome of an export: an exception, with nothing written, or the one call of
  \<open>write_xfbin_to_path\<close>, the last statement of \<open>export_collection\<close>, with the container
  it writes and the diagnostics printed before.
\<close>

datatype 'x outcome = Raised export_error | Written 'x "diagnostic list"

text \<open>
  \<open>export_collection\<close>, lines 197 to 228. \<open>existing\<close> is the container read from the
  export path, \<open>None\<close> when the path is not a file; \<open>objects\<close> are the objects of the
  collection; \<open>fresh\<close> is an address above those of every object of the container read.
\<close>

definition export_collection ::
  "'x xfbin_lib \<Rightarrow> export_settings \<Rightarrow> filesystem \<Rightarrow> 'x option \<Rightarrow> nat \<Rightarrow> armature_object list
    \<Rightarrow> 'x outcome" where
  "export_collection lib S fs existing fresh objects =
     (case (if inject_to_xfbin S
            then (case existing of None \<Rightarrow> Inl CannotInject | Some x \<Rightarrow> Inr (x, S))
            else Inr (new_xfbin lib,
                      S\<lparr>export_meshes := True, export_bones := True, export_textures := True\<rparr>)) of
        Inl e \<Rightarrow> Raised e
      | Inr (x, S') \<Rightarrow>
          (case export_armatures lib S' fs \<lparr>es_xfbin = x, es_fresh = fresh, es_diags = []\<rparr>
                  (filter (\<lambda>obj. arm_type obj = ARMATURE) objects) of
             Inl e \<Rightarrow> Raised e
           | Inr st \<Rightarrow> Written (es_xfbin st) (es_diags st)))"

section \<open>Bone import (importer.py, make\_armature)\<close>

text \<open>
  The matrices of mathutils are not part of the add-on, so the importer is modelled over
  any type \<open>'m\<close> of matrices with the five operations it calls: \<open>Matrix.Identity(4)\<close>,
  \<open>Matrix.Translation(pos)\<close>, \<open>rot.to_matrix().to_4x4()\<close> of an Euler of order ZYX,
  \<open>Matrix.Diagonal(sca).to_4x4()\<close> and the product \<open>@\<close>.
\<close>

record 'm mathutils =
  Matrix_Identity :: 'm
  Matrix_Translation :: "vec3 \<Rightarrow> 'm"
  Euler_to_matrix :: "vec3 \<Rightarrow> 'm"
  Matrix_Diagonal :: "vec3 \<Rightarrow> 'm"
  matmul :: "'m \<Rightarrow> 'm \<Rightarrow> 'm"

text \<open>
  A coordinate node with its children. The parent of a node is the node in whose list
  of children it stands, and a root node has none.
\<close>

datatype coord_node =
  CoordNode (node_name: string) (node_position: vec3) (node_rotation: vec3) (node_scale: vec3)
    (node_unkFloat: real) (node_unkShort: int) (node_children: "coord_node list")

text \<open>
  Line 155: the Vector of the absolute values of the scale; line 175: the signs stored on
  the bone.
\<close>

definition abs_scale :: "vec3 \<Rightarrow> vec3" where
  "abs_scale sca = (case sca of (x, y, z) \<Rightarrow> vector (\<bar>x\<bar>, \<bar>y\<bar>, \<bar>z\<bar>))"

definition sign_of :: "real \<Rightarrow> int" where
  "sign_of x = (if x < 0 then - 1 else 1)"

definition scale_signs :: "vec3 \<Rightarrow> int \<times> int \<times> int" where
  "scale_signs sca = (case sca of (x, y, z) \<Rightarrow> (sign_of x, sign_of y, sign_of z))"

text \<open>
  Lines 153 to 159, the matrix in the parentheses: translation, rotation and scale of
  the node.
\<close>

definition node_local_matrix :: "'m mathutils \<Rightarrow> vec3 \<Rightarrow> vec3 \<Rightarrow> vec3 \<Rightarrow> 'm" where
  "node_local_matrix M pos rot sca =
     matmul M
       (matmul M (Matrix_Translation M (pos_cm_to_m pos)) (Euler_to_matrix M (rot_to_blender rot)))
       (Matrix_Diagonal M (abs_scale sca))"

text \<open>An edit bone as the importer leaves it, and the state of \<open>make_armature\<close>.\<close>

record 'm edit_bone =
  bone_name :: string
  bone_matrix :: 'm
  bone_parent :: "string option"
  bone_scale_signs :: "int \<times> int \<times> int"
  bone_unk_float :: real
  bone_unk_short :: int

record 'm armature_state =
  bone_matrices :: "string \<rightharpoonup> 'm"
  edit_bones :: "'m edit_bone list"

datatype import_error = KeyError string

text \<open>
  \<open>make_bone\<close>, lines 144 to 182, for a node whose parent has the name \<open>parent\<close>, and
  the loop over the children of a node, or over the root nodes.
\<close>

fun make_bone ::
    "'m mathutils \<Rightarrow> string option \<Rightarrow> coord_node \<Rightarrow> 'm armature_state
      \<Rightarrow> import_error + 'm armature_state"
  and make_bones ::
    "'m mathutils \<Rightarrow> string option \<Rightarrow> coord_node list \<Rightarrow> 'm armature_state
      \<Rightarrow> import_error + 'm armature_state" where
  "make_bone M parent (CoordNode name pos rot sca unk_float unk_short children) st =
     (case (case parent of
              None \<Rightarrow> Inr (Matrix_Identity M)
            | Some p \<Rightarrow> (case bone_matrices st p of None \<Rightarrow> Inl (KeyError p) | Some m \<Rightarrow> Inr m)) of
        Inl e \<Rightarrow> Inl e
      | Inr parent_matrix \<Rightarrow>
          make_bones M (Some name) children
            \<lparr>bone_matrices = (bone_matrices st)
               (name \<mapsto> matmul M parent_matrix (node_local_matrix M pos rot sca)),
             edit_bones = edit_bones st @
               [\<lparr>bone_name = name,
                 bone_matrix = matmul M parent_matrix (node_local_matrix M pos rot sca),
                 bone_parent = parent,
                 bone_scale_signs = scale_signs sca,
                 bone_unk_float = unk_float,
                 bone_unk_short = unk_short\<rparr>]\<rparr>)"
| "make_bones M parent [] st = Inr st"
| "make_bones M parent (c # cs) st =
     (case make_bone M parent c st of
        Inl e \<Rightarrow> Inl e
      | Inr st' \<Rightarrow> make_bones M parent cs st')"

text \<open>Lines 142 and 184 to 185: the bones of the root nodes of a clump.\<close>

definition make_armature :: "'m mathutils \<Rightarrow> coord_node list \<Rightarrow> import_error + 'm armature_state" where
  "make_armature M root_nodes =
     make_bones M None root_nodes \<lparr>bone_matrices = Map.empty, edit_bones = []\<rparr>"

section \<open>Concrete inputs for the examples\<close>

text \<open>
  A loop at the mesh vertex of the given index, at the origin, of a mesh with no colour,
  UV or deform layer; and a mesh object of the given loop triangles.
\<close>

definition bare_loop :: "nat \<Rightarrow> bm_loop" where
  "bare_loop i =
     \<lparr>vert_index = i, vert_co = (0, 0, 0), vert_normal = (0, 0, 1), loop_tangent = (1, 0, 0),
      loop_color = None, loop_uv1 = None, loop_uv2 = None, vert_deform = None\<rparr>"

definition bare_mesh :: "string \<Rightarrow> string \<Rightarrow> loop_triangle list \<Rightarrow> mesh_object" where
  "bare_mesh name mat tris =
     \<lparr>mo_name = name, mo_type = MESH, mo_loop_triangles = tris, mo_bm_faces = length tris,
      mo_vertex_groups = (\<lambda>b. ''bone''), mo_xfbin_material = mat\<rparr>"

text \<open>
  A container library for the examples: the container is the list of its pages, a page
  is added at the end, and the clump of a path and a name is the first such clump page.
\<close>

datatype page = TexturePage nucc_chunk_texture | ClumpPage nucc_chunk_clump

fun find_clump :: "page list \<Rightarrow> string \<Rightarrow> string \<Rightarrow> nucc_chunk_clump option" where
  "find_clump [] p n = None"
| "find_clump (TexturePage t # ps) p n = find_clump ps p n"
| "find_clump (ClumpPage c # ps) p n =
     (if clump_filePath c = p \<and> clump_name c = n then Some c else find_clump ps p n)"

definition list_lib :: "nat \<Rightarrow> nat \<Rightarrow> page list xfbin_lib" where
  "list_lib mv mf =
     \<lparr>add_chunk_page = (\<lambda>c x. x @ [TexturePage c]),
      add_clump_page = (\<lambda>c x. x @ [ClumpPage c]),
      get_clump = find_clump,
      new_xfbin = [],
      MAX_VERTICES = mv,
      MAX_FACES = mf\<rparr>"

text \<open>Export settings for injection with the given choice of meshes and bones.\<close>

definition inject_settings :: "bool \<Rightarrow> bool \<Rightarrow> export_settings" where
  "inject_settings meshes bones =
     \<lparr>inject_to_xfbin = True, export_meshes = meshes, export_bones = bones,
      export_textures = True, export_specific_meshes = False, meshes_to_export = []\<rparr>"

text \<open>
  An empty of the given meshes; an armature of the given children, with the one material
  \<open>mat\<close> and one coordinate chunk \<open>root\<close>, and no texture chunks; and a model
  with one triangle.
\<close>

definition bare_empty :: "string \<Rightarrow> string \<Rightarrow> mesh_object list \<Rightarrow> empty_object" where
  "bare_empty name bone meshes =
     \<lparr>eo_name = name, eo_type = EMPTY, eo_mesh_bone = bone, eo_children = meshes\<rparr>"

definition bare_armature ::
  "string \<Rightarrow> string list \<Rightarrow> string list list \<Rightarrow> empty_object list \<Rightarrow> armature_object" where
  "bare_armature name models groups children =
     \<lparr>arm_name = name, arm_type = ARMATURE, cd_path = ''p'', cd_models = models,
      cd_model_groups = groups, cd_materials = [''mat''], cd_texture_chunks = [],
      arm_children = children, arm_coords = [\<lparr>coord_filePath = ''p'', coord_name = ''root''\<rparr>]\<rparr>"

definition triangle_empty :: "string \<Rightarrow> empty_object" where
  "triangle_empty name =
     bare_empty name ''root'' [bare_mesh ''tri'' ''mat'' [(bare_loop 5, bare_loop 6, bare_loop 7)]]"

text \<open>
  A clump as read from an existing container: its three lists are objects at the
  addresses 1, 2 and 3.
\<close>

definition existing_clump :: "string \<Rightarrow> nucc_chunk_clump" where
  "existing_clump name =
     \<lparr>clump_filePath = ''p'', clump_name = name,
      coord_chunks = Ref 1 [\<lparr>coord_filePath = ''p'', coord_name = ''old_root''\<rparr>],
      model_chunks = Ref 2 [None],
      model_groups = Ref 3 [\<lparr>group_model_chunks = [None]\<rparr>]\<rparr>"

text \<open>
  Matrices for the examples: a 4 by 4 matrix as the list of its four rows, with the
  operations of mathutils computed without rounding. The rotation is the composition of
  the rotations about the z, the y and the x axis by the three angles. On the entries of
  the examples below, which are 0, 1, 2 and -2, the operations in single precision have
  the same results.
\<close>

type_synonym mat4 = "real list list"

definition mat_identity :: mat4 where
  "mat_identity = [[1, 0, 0, 0], [0, 1, 0, 0], [0, 0, 1, 0], [0, 0, 0, 1]]"

definition mat_mul :: "mat4 \<Rightarrow> mat4 \<Rightarrow> mat4" where
  "mat_mul a b =
     map (\<lambda>row. map (\<lambda>j. sum_list (map2 (*) row (map (\<lambda>r. r ! j) b))) [0, 1, 2, 3]) a"

definition translation :: "vec3 \<Rightarrow> mat4" where
  "translation pos =
     (case pos of (x, y, z) \<Rightarrow> [[1, 0, 0, x], [0, 1, 0, y], [0, 0, 1, z], [0, 0, 0, 1]])"

definition diagonal :: "vec3 \<Rightarrow> mat4" where
  "diagonal sca =
     (case sca of (x, y, z) \<Rightarrow> [[x, 0, 0, 0], [0, y, 0, 0], [0, 0, z, 0], [0, 0, 0, 1]])"

definition euler_zyx_matrix :: "vec3 \<Rightarrow> mat4" where
  "euler_zyx_matrix r =
     (case r of (x, y, z) \<Rightarrow>
        mat_mul [[1, 0, 0, 0], [0, cos x, - sin x, 0], [0, sin x, cos x, 0], [0, 0, 0, 1]]
          (mat_mul [[cos y, 0, sin y, 0], [0, 1, 0, 0], [- sin y, 0, cos y, 0], [0, 0, 0, 1]]
             [[cos z, - sin z, 0, 0], [sin z, cos z, 0, 0], [0, 0, 1, 0], [0, 0, 0, 1]]))"

definition list_matrices :: "mat4 mathutils" where
  "list_matrices =
     \<lparr>Matrix_Identity = mat_identity,
      Matrix_Translation = translation,
      Euler_to_matrix = euler_zyx_matrix,
      Matrix_Diagonal = diagonal,
      matmul = mat_mul\<rparr>"

section \<open>Predicates of the properties\<close>

text \<open>
  The invariant of the triangle loop: the dictionary numbers its keys 0, 1, 2, ... in
  insertion order, no key occurs twice, and there is one vertex for every key.
\<close>

definition dict_inv :: "mesh_acc \<Rightarrow> bool" where
  "dict_inv acc \<longleftrightarrow>
     map snd (vertex_indices_dict acc) = [0..<length (vertex_indices_dict acc)]
     \<and> distinct (map fst (vertex_indices_dict acc))
     \<and> length (acc_vertices acc) = length (vertex_indices_dict acc)"

text \<open>A face, or a loop triangle, with fewer than three distinct corners.\<close>

definition degenerate_face :: "face \<Rightarrow> bool" where
  "degenerate_face f = (case f of (a, b, c) \<Rightarrow> a = b \<or> b = c \<or> a = c)"

definition degenerate_triangle :: "loop_triangle \<Rightarrow> bool" where
  "degenerate_triangle t =
     (case t of (l1, l2, l3) \<Rightarrow>
        vert_index l1 = vert_index l2 \<or> vert_index l2 = vert_index l3
        \<or> vert_index l1 = vert_index l3)"

text \<open>The mesh vertices that the corners of the loop triangles refer to, in traversal order.\<close>

definition triangle_vert_indices :: "loop_triangle list \<Rightarrow> nat list" where
  "triangle_vert_indices tris =
     concat (map (\<lambda>t. case t of (l1, l2, l3) \<Rightarrow> [vert_index l1, vert_index l2, vert_index l3]) tris)"

text \<open>
  Lines 276 and 283: the dictionary that resolves the entries of the model groups, for
  the list \<open>ms\<close> that \<open>make_models\<close> returned.
\<close>

definition group_dict :: "nucc_chunk_model list \<Rightarrow> (string \<rightharpoonup> nucc_chunk_model option)" where
  "group_dict ms = (dict_of model_name Some ms)(''None'' \<mapsto> None)"

text \<open>The names of a node and of its descendants, in the order \<open>make_bone\<close> visits them.\<close>

fun node_names :: "coord_node \<Rightarrow> string list" where
  "node_names (CoordNode name pos rot sca unk_float unk_short children) =
     name # concat (map node_names children)"

text \<open>
  The bones of a node and of its descendants, each with the world matrix
  \<open>parent_world\<close> times the local matrix of its node, computed by passing the world
  matrix of the parent down the tree.
\<close>

fun world_bones :: "'m mathutils \<Rightarrow> 'm \<Rightarrow> string option \<Rightarrow> coord_node \<Rightarrow> 'm edit_bone list" where
  "world_bones M parent_world parent (CoordNode name pos rot sca unk_float unk_short children) =
     \<lparr>bone_name = name,
      bone_matrix = matmul M parent_world (node_local_matrix M pos rot sca),
      bone_parent = parent,
      bone_scale_signs = scale_signs sca,
      bone_unk_float = unk_float,
      bone_unk_short = unk_short\<rparr>
     # concat (map (world_bones M
                      (matmul M parent_world (node_local_matrix M pos rot sca)) (Some name))
                children)"

text \<open>
  The local matrix as claim C2 words it: the recorded signs are applied again to the
  absolute value of the stored scale before composing.
\<close>

definition signed_scale :: "vec3 \<Rightarrow> vec3" where
  "signed_scale sca =
     (case scale_signs sca of (sx, sy, sz) \<Rightarrow>
        case abs_scale sca of (x, y, z) \<Rightarrow> vector (of_int sx * x, of_int sy * y, of_int sz * z))"

definition claimed_local_matrix :: "'m mathutils \<Rightarrow> vec3 \<Rightarrow> vec3 \<Rightarrow> vec3 \<Rightarrow> 'm" where
  "claimed_local_matrix M pos rot sca =
     matmul M
       (matmul M (Matrix_Translation M (pos_cm_to_m pos)) (Euler_to_matrix M (rot_to_blender rot)))
       (Matrix_Diagonal M (signed_scale sca))"

text \<open>
  What \<open>make_bone\<close> needs of its state for a node of parent \<open>parent\<close>: a root node has
  the identity for the world matrix of its parent; otherwise the dictionary holds the world
  matrix of the parent under its name, and none of the names to come is that name.
\<close>

definition parent_known ::
  "'m mathutils \<Rightarrow> string option \<Rightarrow> 'm \<Rightarrow> 'm armature_state \<Rightarrow> string list \<Rightarrow> bool" where
  "parent_known M parent parent_world st names =
     (case parent of
        None \<Rightarrow> parent_world = Matrix_Identity M
      | Some p \<Rightarrow> bone_matrices st p = Some parent_world \<and> p \<notin> set names)"

text \<open>
  The remapping of lines 461 to 463 and 514 in closed form. The mesh vertices are
  numbered in the order in which the corners of the loop triangles first reach them:
  \<open>first_seen\<close> lists them in that order, the output index of a mesh vertex is its
  position in that list, and the face of a triangle has the output indices of its three
  corners, in their order.
\<close>

definition first_seen :: "loop_triangle list \<Rightarrow> nat list" where
  "first_seen tris = fromkeys_list (triangle_vert_indices tris)"

definition rank_in :: "nat list \<Rightarrow> nat \<Rightarrow> nat" where
  "rank_in keys k = length (takeWhile (\<lambda>x. x \<noteq> k) keys)"

definition face_by :: "nat list \<Rightarrow> loop_triangle \<Rightarrow> face" where
  "face_by keys t =
     (case t of (l1, l2, l3) \<Rightarrow>
        (rank_in keys (vert_index l1), rank_in keys (vert_index l2), rank_in keys (vert_index l3)))"

definition remapped_faces :: "loop_triangle list \<Rightarrow> face list" where
  "remapped_faces tris = map (face_by (first_seen tris)) tris"

text \<open>The dictionary gives every key its position among the keys.\<close>

definition rank_inv :: "mesh_acc \<Rightarrow> bool" where
  "rank_inv acc \<longleftrightarrow>
     (\<forall>k \<in> fst ` set (vertex_indices_dict acc).
        map_of (vertex_indices_dict acc) k
          = Some (rank_in (map fst (vertex_indices_dict acc)) k))"

section \<open>Properties\<close>

subsection \<open>Texture validation\<close>

lemma valid_nut_magic: "valid_nut d \<Longrightarrow> take 4 d = ''NTP3''"
  by (simp add: valid_nut_def)

lemma valid_nut_append: "rest \<noteq> [] \<Longrightarrow> valid_nut (''NTP3'' @ rest)"
  by (cases rest) (simp_all add: valid_nut_def)

text \<open>
  Claim C7, as the code has it. For a texture chunk that is included and whose path is a
  file with contents \<open>d\<close>: when \<open>d\<close> does not start with the magic \<open>NTP3\<close>, the
  iteration leaves the container as it was and prints the diagnostic, and the loop goes on
  with the remaining texture chunks; when \<open>d\<close> is the magic followed by at least one
  further byte, the chunk with these bytes is added as a page and nothing is printed.
\<close>

theorem texture_validation:
  assumes "tc_include tc" and "tc_nut_path tc \<noteq> []" and "fs (tc_nut_path tc) = Some d"
  shows "(take 4 d \<noteq> ''NTP3'' \<longrightarrow>
            export_texture_chunk add_page fs tc x = (x, [NutSkipped (tc_texture_name tc)])
            \<and> export_texture_chunks add_page fs (tc # tcs) x =
                (fst (export_texture_chunks add_page fs tcs x),
                 NutSkipped (tc_texture_name tc) # snd (export_texture_chunks add_page fs tcs x)))
       \<and> (\<forall>rest. d = ''NTP3'' @ rest \<and> rest \<noteq> [] \<longrightarrow>
            export_texture_chunk add_page fs tc x =
              (add_page \<lparr>tex_filePath = tc_path tc, tex_name = tc_texture_name tc,
                         nut_data = d\<rparr> x, []))"
proof (intro conjI impI allI)
  assume bad: "take 4 d \<noteq> ''NTP3''"
  then have nv: "\<not> valid_nut d"
    using valid_nut_magic by blast
  with assms show step: "export_texture_chunk add_page fs tc x = (x, [NutSkipped (tc_texture_name tc)])"
    by (simp add: export_texture_chunk_def)
  then show "export_texture_chunks add_page fs (tc # tcs) x =
      (fst (export_texture_chunks add_page fs tcs x),
       NutSkipped (tc_texture_name tc) # snd (export_texture_chunks add_page fs tcs x))"
    by (simp add: case_prod_unfold)
next
  fix rest
  assume "d = ''NTP3'' @ rest \<and> rest \<noteq> []"
  then have "valid_nut d"
    using valid_nut_append by blast
  with assms show "export_texture_chunk add_page fs tc x =
      (add_page \<lparr>tex_filePath = tc_path tc, tex_name = tc_texture_name tc, nut_data = d\<rparr> x, [])"
    by (simp add: export_texture_chunk_def)
qed

theorem texture_validation_witness:
  "export_texture_chunk (#) [''a.nut'' \<mapsto> ''NTP3x'']
     \<lparr>tc_include = True, tc_nut_path = ''a.nut'', tc_path = ''p'', tc_texture_name = ''t''\<rparr> []
   = ([\<lparr>tex_filePath = ''p'', tex_name = ''t'', nut_data = ''NTP3x''\<rparr>], [])
   \<and> export_texture_chunks (#) [''b.nut'' \<mapsto> ''DDS ''  , ''a.nut'' \<mapsto> ''NTP3x'']
       [\<lparr>tc_include = True, tc_nut_path = ''b.nut'', tc_path = ''p'', tc_texture_name = ''u''\<rparr>,
        \<lparr>tc_include = True, tc_nut_path = ''a.nut'', tc_path = ''p'', tc_texture_name = ''t''\<rparr>] []
   = ([\<lparr>tex_filePath = ''p'', tex_name = ''t'', nut_data = ''NTP3x''\<rparr>], [NutSkipped ''u''])"
  using texture_validation [of "\<lparr>tc_include = True, tc_nut_path = ''a.nut'', tc_path = ''p'',
        tc_texture_name = ''t''\<rparr>" "[''a.nut'' \<mapsto> ''NTP3x'']" "''NTP3x''" "(#)" "[]" "[]"]
    texture_validation [of "\<lparr>tc_include = True, tc_nut_path = ''b.nut'', tc_path = ''p'',
        tc_texture_name = ''u''\<rparr>" "[''b.nut'' \<mapsto> ''DDS '', ''a.nut'' \<mapsto> ''NTP3x'']" "''DDS ''" "(#)" "[]"
        "[\<lparr>tc_include = True, tc_nut_path = ''a.nut'', tc_path = ''p'', tc_texture_name = ''t''\<rparr>]"]
  by (simp add: export_texture_chunk_def valid_nut_def)

text \<open>
  Claim C7 as stated adds every buffer that starts with the magic. The buffer of exactly
  the four bytes \<open>NTP3\<close> starts with the magic and is skipped, with the diagnostic: the
  check asks for more than four bytes.
\<close>

theorem texture_magic_only_counterexample:
  "take 4 ''NTP3'' = ''NTP3''
   \<and> export_texture_chunk (#) [''a.nut'' \<mapsto> ''NTP3'']
       \<lparr>tc_include = True, tc_nut_path = ''a.nut'', tc_path = ''p'', tc_texture_name = ''t''\<rparr> []
     = ([], [NutSkipped ''t''])"
  by (simp add: export_texture_chunk_def valid_nut_def)

subsection \<open>Vertex deduplication and faces\<close>

lemma dict_inv_empty: "dict_inv empty_mesh_acc"
  by (simp add: dict_inv_def empty_mesh_acc_def)

lemma map_of_None_iff: "map_of xs k = None \<longleftrightarrow> k \<notin> fst ` set xs"
  by (simp add: map_of_eq_None_iff)

lemma add_loop_inv: "dict_inv acc \<Longrightarrow> dict_inv (add_loop vg d acc l)"
  by (auto simp: dict_inv_def add_loop_def map_of_None_iff)

lemma add_loop_faces: "acc_faces (add_loop vg d acc l) = acc_faces acc"
  by (simp add: add_loop_def)

lemma add_loop_present:
  "map_of (vertex_indices_dict (add_loop vg d acc l)) (vert_index l) \<noteq> None"
  by (auto simp: add_loop_def map_of_None_iff)

lemma add_loop_keeps:
  "map_of (vertex_indices_dict acc) k = Some i
    \<Longrightarrow> map_of (vertex_indices_dict (add_loop vg d acc l)) k = Some i"
  by (auto simp: add_loop_def map_add_Some_iff)

lemma dict_inv_inj:
  assumes "dict_inv acc"
    and "map_of (vertex_indices_dict acc) k1 = Some i"
    and "map_of (vertex_indices_dict acc) k2 = Some i"
  shows "k1 = k2"
proof -
  let ?D = "vertex_indices_dict acc"
  have "distinct (map snd ?D)"
    using assms(1) by (simp add: dict_inv_def)
  then have inj: "inj_on snd (set ?D)"
    by (simp add: distinct_map)
  have "(k1, i) \<in> set ?D" and "(k2, i) \<in> set ?D"
    using assms(2,3) by (auto dest: map_of_SomeD)
  with inj have "(k1, i) = (k2, i)"
    by (intro inj_onD [of snd "set ?D"]) simp_all
  then show ?thesis
    by simp
qed

lemma add_triangle_inv: "dict_inv acc \<Longrightarrow> dict_inv (add_triangle vg d acc t)"
  by (cases t) (simp add: add_triangle_def Let_def dict_inv_def add_loop_inv [unfolded dict_inv_def])

lemma add_triangle_faces:
  assumes "dict_inv acc"
  shows "\<exists>f. acc_faces (add_triangle vg d acc t) = acc_faces acc @ [f]
           \<and> degenerate_face f = degenerate_triangle t"
proof -
  obtain l1 l2 l3 where t: "t = (l1, l2, l3)"
    by (cases t)
  define a1 where "a1 = add_loop vg d acc l1"
  define a2 where "a2 = add_loop vg d a1 l2"
  define a3 where "a3 = add_loop vg d a2 l3"
  let ?D = "vertex_indices_dict a3"
  have inv3: "dict_inv a3"
    using assms by (simp add: a1_def a2_def a3_def add_loop_inv)
  obtain i1 where i1: "map_of (vertex_indices_dict a1) (vert_index l1) = Some i1"
    using add_loop_present [of vg d acc l1] by (auto simp: a1_def)
  obtain i2 where i2: "map_of (vertex_indices_dict a2) (vert_index l2) = Some i2"
    using add_loop_present [of vg d a1 l2] by (auto simp: a2_def)
  obtain i3 where i3: "map_of ?D (vert_index l3) = Some i3"
    using add_loop_present [of vg d a2 l3] by (auto simp: a3_def)
  have j1: "map_of ?D (vert_index l1) = Some i1"
    using i1 by (simp add: a2_def a3_def add_loop_keeps)
  have j2: "map_of ?D (vert_index l2) = Some i2"
    using i2 by (simp add: a3_def add_loop_keeps)
  have faces: "acc_faces (add_triangle vg d acc t) = acc_faces acc @ [(i1, i2, i3)]"
    using j1 j2 i3
    by (simp add: t add_triangle_def Let_def remap_def add_loop_faces
        a1_def [symmetric] a2_def [symmetric] a3_def [symmetric])
  have e12: "i1 = i2 \<longleftrightarrow> vert_index l1 = vert_index l2"
    using dict_inv_inj [OF inv3] j1 j2 by auto
  have e23: "i2 = i3 \<longleftrightarrow> vert_index l2 = vert_index l3"
    using dict_inv_inj [OF inv3] j2 i3 by auto
  have e13: "i1 = i3 \<longleftrightarrow> vert_index l1 = vert_index l3"
    using dict_inv_inj [OF inv3] j1 i3 by auto
  have "degenerate_face (i1, i2, i3) = degenerate_triangle t"
    by (simp add: degenerate_face_def degenerate_triangle_def t e12 e23 e13)
  with faces show ?thesis
    by blast
qed

lemma build_mesh_snoc:
  "build_mesh vg d (tris @ [t]) = add_triangle vg d (build_mesh vg d tris) t"
  by (simp add: build_mesh_def)

lemma build_mesh_inv: "dict_inv (build_mesh vg d tris)"
proof (induction tris rule: rev_induct)
  case Nil
  show ?case by (simp add: build_mesh_def dict_inv_empty)
next
  case (snoc t tris)
  then show ?case by (simp add: build_mesh_snoc add_triangle_inv)
qed

lemma build_mesh_degenerate:
  "length (acc_faces (build_mesh vg d tris)) = length tris
   \<and> map degenerate_face (acc_faces (build_mesh vg d tris)) = map degenerate_triangle tris"
proof (induction tris rule: rev_induct)
  case Nil
  show ?case by (simp add: build_mesh_def empty_mesh_acc_def)
next
  case (snoc t tris)
  obtain f where "acc_faces (build_mesh vg d (tris @ [t])) = acc_faces (build_mesh vg d tris) @ [f]"
    and "degenerate_face f = degenerate_triangle t"
    using add_triangle_faces [OF build_mesh_inv [of vg d tris], of vg d t]
    by (auto simp: build_mesh_snoc)
  with snoc show ?case by simp
qed

subsection \<open>Capacity policy\<close>

lemma add_loop_keys:
  "fst ` set (vertex_indices_dict (add_loop vg d acc l))
     = insert (vert_index l) (fst ` set (vertex_indices_dict acc))"
  by (auto simp: add_loop_def map_of_None_iff)

lemma add_triangle_keys:
  "fst ` set (vertex_indices_dict (add_triangle vg d acc (l1, l2, l3)))
     = {vert_index l1, vert_index l2, vert_index l3} \<union> fst ` set (vertex_indices_dict acc)"
  by (simp add: add_triangle_def Let_def add_loop_keys insert_commute)

lemma build_mesh_keys:
  "fst ` set (vertex_indices_dict (build_mesh vg d tris)) = set (triangle_vert_indices tris)"
proof (induction tris rule: rev_induct)
  case Nil
  show ?case by (simp add: build_mesh_def empty_mesh_acc_def triangle_vert_indices_def)
next
  case (snoc t tris)
  obtain l1 l2 l3 where t: "t = (l1, l2, l3)"
    by (cases t)
  have "set (triangle_vert_indices (tris @ [t]))
      = {vert_index l1, vert_index l2, vert_index l3} \<union> set (triangle_vert_indices tris)"
    by (auto simp: triangle_vert_indices_def t)
  with snoc show ?case
    by (simp add: build_mesh_snoc t add_triangle_keys)
qed

lemma build_mesh_vertex_count:
  "length (acc_vertices (build_mesh vg d tris)) = card (set (triangle_vert_indices tris))"
proof -
  let ?D = "vertex_indices_dict (build_mesh vg d tris)"
  have inv: "dict_inv (build_mesh vg d tris)"
    by (rule build_mesh_inv)
  then have "length (acc_vertices (build_mesh vg d tris)) = length (map fst ?D)"
    by (simp add: dict_inv_def)
  also have "\<dots> = card (fst ` set ?D)"
    using inv distinct_card [of "map fst ?D"] by (simp add: dict_inv_def)
  finally show ?thesis
    by (simp only: build_mesh_keys)
qed

lemma add_triangle_face_count:
  "length (acc_faces (add_triangle vg d acc t)) = Suc (length (acc_faces acc))"
  by (cases t) (simp add: add_triangle_def Let_def add_loop_faces)

lemma build_mesh_face_count: "length (acc_faces (build_mesh vg d tris)) = length tris"
  by (induction tris rule: rev_induct)
     (simp_all add: build_mesh_snoc add_triangle_face_count build_mesh_def empty_mesh_acc_def)

lemma make_nud_meshes_append:
  "make_nud_meshes MV MF d mats (xs @ ys) =
     (fst (make_nud_meshes MV MF d mats xs) @ fst (make_nud_meshes MV MF d mats ys),
      snd (make_nud_meshes MV MF d mats xs) @ snd (make_nud_meshes MV MF d mats ys))"
  by (induction xs) (simp_all add: case_prod_unfold)

lemma make_nud_meshes_all_dropped:
  "(\<And>c. c \<in> set ms \<Longrightarrow> snd (make_nud_mesh MV MF d mats c) = None)
    \<Longrightarrow> snd (make_nud_meshes MV MF d mats ms) = []"
  by (induction ms) (simp_all add: case_prod_unfold option_list_def)

lemma make_nud_mesh_over_capacity:
  assumes "card (set (triangle_vert_indices (mo_loop_triangles m))) > MV
           \<or> length (mo_loop_triangles m) > MF"
  shows "snd (make_nud_mesh MV MF d mats m) = None
         \<and> length (fst (make_nud_mesh MV MF d mats m)) = 1"
  using assms
  by (auto simp: make_nud_mesh_def Let_def build_mesh_vertex_count build_mesh_face_count)

lemma make_nud_mesh_complete:
  assumes "snd (make_nud_mesh MV MF d mats m) = Some (nm, mat)"
  shows "length (vertices nm) = card (set (triangle_vert_indices (mo_loop_triangles m)))
         \<and> length (faces nm) = length (mo_loop_triangles m)"
  using assms
  by (auto simp: make_nud_mesh_def Let_def build_mesh_vertex_count build_mesh_face_count
      split: if_splits option.splits)

text \<open>
  Claim C6. A sub-mesh whose number of distinct mesh vertices exceeds \<open>MAX_VERTICES\<close>, or
  whose number of triangles exceeds \<open>MAX_FACES\<close>, is dropped with one diagnostic; a dropped
  sub-mesh leaves no mesh in the list of its model, whatever stands before and after it; a
  sub-mesh that is kept has all its vertices and all its triangles, so none is truncated;
  and a model all of whose sub-meshes are dropped is not in the list that the iteration
  appends, and the diagnostic for the model is printed.
\<close>

theorem capacity_policy:
  "(card (set (triangle_vert_indices (mo_loop_triangles m))) > MV
      \<or> length (mo_loop_triangles m) > MF
     \<longrightarrow> snd (make_nud_mesh MV MF d mats m) = None
         \<and> length (fst (make_nud_mesh MV MF d mats m)) = 1)
   \<and> (snd (make_nud_mesh MV MF d mats m) = None
     \<longrightarrow> snd (make_nud_meshes MV MF d mats (pre @ m # post))
          = snd (make_nud_meshes MV MF d mats (pre @ post)))
   \<and> (\<forall>nm mat. snd (make_nud_mesh MV MF d mats m) = Some (nm, mat)
     \<longrightarrow> length (vertices nm) = card (set (triangle_vert_indices (mo_loop_triangles m)))
         \<and> length (faces nm) = length (mo_loop_triangles m))
   \<and> ((\<forall>c \<in> set (eo_children e). mo_type c = MESH \<longrightarrow> snd (make_nud_mesh MV MF d mats c) = None)
     \<longrightarrow> snd (build_model MV MF p d mats e) = []
         \<and> NudNoMeshes (eo_name e) \<in> set (fst (build_model MV MF p d mats e))
         \<and> (\<not> export_specific_meshes S \<longrightarrow> snd (make_model S MV MF p d mats old_all e) = []))"
proof (intro conjI impI allI)
  assume "card (set (triangle_vert_indices (mo_loop_triangles m))) > MV
      \<or> length (mo_loop_triangles m) > MF"
  then show "snd (make_nud_mesh MV MF d mats m) = None"
    and "length (fst (make_nud_mesh MV MF d mats m)) = 1"
    using make_nud_mesh_over_capacity by blast+
next
  assume "snd (make_nud_mesh MV MF d mats m) = None"
  then show "snd (make_nud_meshes MV MF d mats (pre @ m # post))
      = snd (make_nud_meshes MV MF d mats (pre @ post))"
    by (simp add: make_nud_meshes_append case_prod_unfold option_list_def)
next
  fix nm mat
  assume "snd (make_nud_mesh MV MF d mats m) = Some (nm, mat)"
  then show "length (vertices nm) = card (set (triangle_vert_indices (mo_loop_triangles m)))"
    and "length (faces nm) = length (mo_loop_triangles m)"
    using make_nud_mesh_complete by blast+
next
  assume all: "\<forall>c \<in> set (eo_children e). mo_type c = MESH \<longrightarrow> snd (make_nud_mesh MV MF d mats c) = None"
  then have none: "snd (make_nud_meshes MV MF d mats (filter (\<lambda>c. mo_type c = MESH) (eo_children e))) = []"
    by (intro make_nud_meshes_all_dropped) simp
  then show dropped: "snd (build_model MV MF p d mats e) = []"
    by (simp add: build_model_def case_prod_unfold)
  from none show "NudNoMeshes (eo_name e) \<in> set (fst (build_model MV MF p d mats e))"
    by (simp add: build_model_def case_prod_unfold)
  show "snd (make_model S MV MF p d mats old_all e) = []" if "\<not> export_specific_meshes S"
    using that dropped by (simp add: make_model_def)
qed
lemma make_nud_mesh_counts:
  "make_nud_mesh MV MF d mats m =
     (if card (set (triangle_vert_indices (mo_loop_triangles m))) < 3
        then ([MeshNoValidFaces (mo_name m)], None)
      else if card (set (triangle_vert_indices (mo_loop_triangles m))) > MV
        then ([MeshTooManyVertices (mo_name m)
                 (card (set (triangle_vert_indices (mo_loop_triangles m)))) MV], None)
      else if length (mo_loop_triangles m) > MF
        then ([MeshTooManyFaces (mo_name m) (mo_bm_faces m) MF], None)
      else (case mats (mo_xfbin_material m) of
              None \<Rightarrow> ([MeshNoMaterial (mo_name m)], None)
            | Some mat \<Rightarrow>
                ([], Some (\<lparr>vertices = acc_vertices (build_mesh (mo_vertex_groups m) d (mo_loop_triangles m)),
                            faces = acc_faces (build_mesh (mo_vertex_groups m) d (mo_loop_triangles m))\<rparr>,
                          mat))))"
  by (simp add: make_nud_mesh_def Let_def build_mesh_vertex_count build_mesh_face_count)

theorem capacity_policy_witness:
  "card (set (triangle_vert_indices
       [(bare_loop 0, bare_loop 1, bare_loop 2), (bare_loop 0, bare_loop 2, bare_loop 3)])) > 3
   \<and> make_nud_mesh 3 10 Map.empty [''mat'' \<mapsto> \<lparr>mat_filePath = ''p'', mat_name = ''mat''\<rparr>]
        (bare_mesh ''quad'' ''mat''
          [(bare_loop 0, bare_loop 1, bare_loop 2), (bare_loop 0, bare_loop 2, bare_loop 3)])
       = ([MeshTooManyVertices ''quad'' 4 3], None)
   \<and> build_model 3 10 ''p'' Map.empty [''mat'' \<mapsto> \<lparr>mat_filePath = ''p'', mat_name = ''mat''\<rparr>]
        \<lparr>eo_name = ''model'', eo_type = EMPTY, eo_mesh_bone = ''bone'',
         eo_children = [bare_mesh ''quad'' ''mat''
          [(bare_loop 0, bare_loop 1, bare_loop 2), (bare_loop 0, bare_loop 2, bare_loop 3)]]\<rparr>
       = ([MeshTooManyVertices ''quad'' 4 3, NudNoMeshes ''model''], [])
   \<and> map (\<lambda>r. (length (vertices (fst r)), length (faces (fst r))))
        (option_list (snd (make_nud_mesh 3 10 Map.empty
           [''mat'' \<mapsto> \<lparr>mat_filePath = ''p'', mat_name = ''mat''\<rparr>]
           (bare_mesh ''tri'' ''mat'' [(bare_loop 5, bare_loop 6, bare_loop 7)]))))
       = [(3, 1)]"
  using capacity_policy [where m = "bare_mesh ''quad'' ''mat''
          [(bare_loop 0, bare_loop 1, bare_loop 2), (bare_loop 0, bare_loop 2, bare_loop 3)]"
      and MV = 3 and MF = 10 and d = Map.empty
      and mats = "[''mat'' \<mapsto> \<lparr>mat_filePath = ''p'', mat_name = ''mat''\<rparr>]"
      and pre = "[]" and post = "[]" and p = "''p''" and old_all = None
      and e = "\<lparr>eo_name = ''model'', eo_type = EMPTY, eo_mesh_bone = ''bone'',
         eo_children = [bare_mesh ''quad'' ''mat''
          [(bare_loop 0, bare_loop 1, bare_loop 2), (bare_loop 0, bare_loop 2, bare_loop 3)]]\<rparr>"
      and S = "\<lparr>inject_to_xfbin = False, export_meshes = True, export_bones = True,
         export_textures = True, export_specific_meshes = False, meshes_to_export = []\<rparr>"]
    capacity_policy [where m = "bare_mesh ''tri'' ''mat'' [(bare_loop 5, bare_loop 6, bare_loop 7)]"
      and MV = 3 and MF = 10 and d = Map.empty
      and mats = "[''mat'' \<mapsto> \<lparr>mat_filePath = ''p'', mat_name = ''mat''\<rparr>]"
      and pre = "[]" and post = "[]" and p = "''p''" and old_all = None
      and e = "\<lparr>eo_name = ''model'', eo_type = EMPTY, eo_mesh_bone = ''bone'', eo_children = []\<rparr>"
      and S = "\<lparr>inject_to_xfbin = False, export_meshes = True, export_bones = True,
         export_textures = True, export_specific_meshes = False, meshes_to_export = []\<rparr>"]
  by (simp add: make_nud_mesh_counts build_model_def make_model_def build_mesh_vertex_count
      build_mesh_face_count triangle_vert_indices_def bare_loop_def
      bare_mesh_def option_list_def card_insert_if)

subsection \<open>Bone index table\<close>

lemma foldl_enumerate_None:
  "foldl (\<lambda>d (i, name). d(name \<mapsto> i)) m (List.enumerate n names) k = None
     \<longleftrightarrow> m k = None \<and> k \<notin> set names"
  by (induction names arbitrary: m n) auto

lemma coord_indices_dict_None: "coord_indices_dict names k = None \<longleftrightarrow> k \<notin> set names"
  by (simp add: coord_indices_dict_def foldl_enumerate_None)

text \<open>
  Claim C10. When the mesh bone named in the NUD properties of an empty is not the name of
  a coordinate chunk of the clump, every model built from the empty has coordinate index
  0; and the diagnostics and the model are the ones built for any other mesh bone name
  \<open>b\<close>, but for that index: the missing bone neither drops the model nor changes
  anything else, and \<open>build_model\<close> has no exception to raise.
\<close>

theorem missing_mesh_bone_defaults_to_zero:
  assumes "eo_mesh_bone e \<notin> set (map coord_name coords)"
  shows "(\<forall>m \<in> set (snd (build_model MV MF p (coord_indices_dict (map coord_name coords)) mats e)).
            coord_index m = 0)
         \<and> fst (build_model MV MF p (coord_indices_dict (map coord_name coords)) mats e)
           = fst (build_model MV MF p (coord_indices_dict (map coord_name coords)) mats
                    (e\<lparr>eo_mesh_bone := b\<rparr>))
         \<and> snd (build_model MV MF p (coord_indices_dict (map coord_name coords)) mats e)
           = map (\<lambda>m. m\<lparr>coord_index := 0\<rparr>)
               (snd (build_model MV MF p (coord_indices_dict (map coord_name coords)) mats
                       (e\<lparr>eo_mesh_bone := b\<rparr>)))"
proof -
  let ?d = "coord_indices_dict (map coord_name coords)"
  have "?d (eo_mesh_bone e) = None"
    using assms by (simp only: coord_indices_dict_None not_False_eq_True)
  then have zero: "dict_get ?d (eo_mesh_bone e) 0 = 0"
    by (simp add: dict_get_def)
  show ?thesis
    by (simp add: build_model_def case_prod_unfold zero)
qed

theorem missing_mesh_bone_defaults_to_zero_witness:
  "''hips'' \<notin> set (map coord_name [\<lparr>coord_filePath = ''p'', coord_name = ''root''\<rparr>,
                                       \<lparr>coord_filePath = ''p'', coord_name = ''spine''\<rparr>])
   \<and> map (\<lambda>m. (model_name m, coord_index m, length (nud_meshes m)))
       (snd (build_model 10 10 ''p''
          (coord_indices_dict (map coord_name [\<lparr>coord_filePath = ''p'', coord_name = ''root''\<rparr>,
                                               \<lparr>coord_filePath = ''p'', coord_name = ''spine''\<rparr>]))
          [''mat'' \<mapsto> \<lparr>mat_filePath = ''p'', mat_name = ''mat''\<rparr>]
          \<lparr>eo_name = ''model'', eo_type = EMPTY, eo_mesh_bone = ''hips'',
           eo_children = [bare_mesh ''tri'' ''mat'' [(bare_loop 5, bare_loop 6, bare_loop 7)]]\<rparr>))
     = [(''model'', 0, 1)]"
  using missing_mesh_bone_defaults_to_zero [where coords = "[\<lparr>coord_filePath = ''p'', coord_name = ''root''\<rparr>,
                                               \<lparr>coord_filePath = ''p'', coord_name = ''spine''\<rparr>]"
      and e = "\<lparr>eo_name = ''model'', eo_type = EMPTY, eo_mesh_bone = ''hips'',
           eo_children = [bare_mesh ''tri'' ''mat'' [(bare_loop 5, bare_loop 6, bare_loop 7)]]\<rparr>"
      and MV = 10 and MF = 10 and p = "''p''" and b = "''spine''"
      and mats = "[''mat'' \<mapsto> \<lparr>mat_filePath = ''p'', mat_name = ''mat''\<rparr>]"]
  by (simp add: build_model_def make_nud_mesh_counts triangle_vert_indices_def bare_loop_def
      bare_mesh_def option_list_def card_insert_if)

subsection \<open>Model groups\<close>

lemma resolve_names_append:
  "resolve_names d (xs @ ys) = resolve_names d xs @ resolve_names d ys"
  by (simp add: resolve_names_def map_filter_def)

lemma resolve_names_single:
  "resolve_names d [k] = (case d k of None \<Rightarrow> [] | Some v \<Rightarrow> [v])"
  by (simp add: resolve_names_def split: option.split)

lemma resolve_names_length:
  "length (resolve_names d names) = length (filter (\<lambda>k. d k \<noteq> None) names)"
  by (simp add: resolve_names_def map_filter_def)

lemma dict_of_snoc: "dict_of key val (vs @ [v]) = (dict_of key val vs)(key v \<mapsto> val v)"
  by (simp add: dict_of_def)

lemma dict_of_None: "dict_of key val vs k = None \<longleftrightarrow> k \<notin> key ` set vs"
proof (induction vs rule: rev_induct)
  case Nil
  show ?case by (simp add: dict_of_def)
next
  case (snoc v vs)
  then show ?case by (auto simp: dict_of_snoc)
qed

lemma dict_of_Some:
  "dict_of key val vs k = Some r \<Longrightarrow> \<exists>v \<in> set vs. key v = k \<and> r = val v"
proof (induction vs rule: rev_induct)
  case Nil
  then show ?case by (simp add: dict_of_def)
next
  case (snoc v vs)
  then show ?case by (auto simp: dict_of_snoc split: if_splits)
qed

lemma group_dict_None: "group_dict ms k = None \<longleftrightarrow> k \<noteq> ''None'' \<and> k \<notin> model_name ` set ms"
  by (simp add: group_dict_def dict_of_None)

lemma make_model_lists_groups:
  assumes "make_models lib S (filter (\<lambda>obj. eo_type obj = EMPTY) (arm_children arm))
             (cd_path arm) coords old_clump
             (dict_of id (\<lambda>n. \<lparr>mat_filePath = cd_path arm, mat_name = n\<rparr>) (cd_materials arm))
           = (ds, ms)"
  shows "snd (snd (make_model_lists lib S arm coords old_clump)) =
           map (\<lambda>g. \<lparr>group_model_chunks = resolve_names (group_dict ms) g\<rparr>) (cd_model_groups arm)"
  using assms by (simp add: make_model_lists_def Let_def group_dict_def)

text \<open>
  Claim C1, as the code has it. With \<open>ms\<close> the models that \<open>make_models\<close> returns for
  the clump, there is one output group for every group of the clump properties, in the
  same order, and its entries are the entries of the input group resolved one by one in
  order: an entry with the key \<open>None\<close> becomes the null reference; an entry whose key is
  the name of a model of \<open>ms\<close> becomes a model of that name; and an entry whose key is
  neither is left out. So an output group has as many entries as its input group has keys
  that are \<open>None\<close> or name a model, and as many as the input group when every key is such.
\<close>

theorem model_group_entries:
  assumes "make_models lib S (filter (\<lambda>obj. eo_type obj = EMPTY) (arm_children arm))
             (cd_path arm) coords old_clump
             (dict_of id (\<lambda>n. \<lparr>mat_filePath = cd_path arm, mat_name = n\<rparr>) (cd_materials arm))
           = (ds, ms)"
  shows "snd (snd (make_model_lists lib S arm coords old_clump)) =
           map (\<lambda>g. \<lparr>group_model_chunks = resolve_names (group_dict ms) g\<rparr>) (cd_model_groups arm)
         \<and> resolve_names (group_dict ms) (pre @ ''None'' # post)
             = resolve_names (group_dict ms) pre @ None # resolve_names (group_dict ms) post
         \<and> (k \<noteq> ''None'' \<and> k \<in> model_name ` set ms \<longrightarrow>
              (\<exists>m \<in> set ms. model_name m = k
                 \<and> resolve_names (group_dict ms) (pre @ k # post)
                   = resolve_names (group_dict ms) pre @ Some m # resolve_names (group_dict ms) post))
         \<and> (k \<noteq> ''None'' \<and> k \<notin> model_name ` set ms \<longrightarrow>
              resolve_names (group_dict ms) (pre @ k # post)
                = resolve_names (group_dict ms) pre @ resolve_names (group_dict ms) post)
         \<and> length (resolve_names (group_dict ms) g)
             = length (filter (\<lambda>k. k = ''None'' \<or> k \<in> model_name ` set ms) g)
         \<and> ((\<forall>k \<in> set g. k = ''None'' \<or> k \<in> model_name ` set ms) \<longrightarrow>
              length (resolve_names (group_dict ms) g) = length g)"
proof (intro conjI impI)
  show "snd (snd (make_model_lists lib S arm coords old_clump)) =
      map (\<lambda>g. \<lparr>group_model_chunks = resolve_names (group_dict ms) g\<rparr>) (cd_model_groups arm)"
    using assms by (rule make_model_lists_groups)
next
  have "resolve_names (group_dict ms) [''None''] = [None]"
    by (simp add: resolve_names_single group_dict_def)
  then show "resolve_names (group_dict ms) (pre @ ''None'' # post)
      = resolve_names (group_dict ms) pre @ None # resolve_names (group_dict ms) post"
    using resolve_names_append [of "group_dict ms" pre "[''None''] @ post"]
      resolve_names_append [of "group_dict ms" "[''None'']" post]
    by simp
next
  assume k: "k \<noteq> ''None'' \<and> k \<in> model_name ` set ms"
  then have "dict_of model_name Some ms k \<noteq> None"
    by (simp add: dict_of_None)
  then obtain r where r: "dict_of model_name Some ms k = Some r"
    by blast
  then obtain m where m: "m \<in> set ms" "model_name m = k" "r = Some m"
    using dict_of_Some [OF r] by blast
  have "resolve_names (group_dict ms) [k] = [Some m]"
    using k r m by (simp add: resolve_names_single group_dict_def)
  then have "resolve_names (group_dict ms) (pre @ k # post)
      = resolve_names (group_dict ms) pre @ Some m # resolve_names (group_dict ms) post"
    using resolve_names_append [of "group_dict ms" pre "[k] @ post"]
      resolve_names_append [of "group_dict ms" "[k]" post]
    by simp
  with m show "\<exists>m \<in> set ms. model_name m = k
      \<and> resolve_names (group_dict ms) (pre @ k # post)
        = resolve_names (group_dict ms) pre @ Some m # resolve_names (group_dict ms) post"
    by blast
next
  assume "k \<noteq> ''None'' \<and> k \<notin> model_name ` set ms"
  then have "group_dict ms k = None"
    using group_dict_None [of ms k] by blast
  then have "resolve_names (group_dict ms) [k] = []"
    by (simp add: resolve_names_single)
  then show "resolve_names (group_dict ms) (pre @ k # post)
      = resolve_names (group_dict ms) pre @ resolve_names (group_dict ms) post"
    using resolve_names_append [of "group_dict ms" pre "[k] @ post"]
      resolve_names_append [of "group_dict ms" "[k]" post]
    by simp
next
  have eq: "(\<lambda>k. group_dict ms k \<noteq> None) = (\<lambda>k. k = ''None'' \<or> k \<in> model_name ` set ms)"
    by (auto simp: group_dict_None)
  show len: "length (resolve_names (group_dict ms) g)
      = length (filter (\<lambda>k. k = ''None'' \<or> k \<in> model_name ` set ms) g)"
    by (simp only: resolve_names_length eq)
  show "length (resolve_names (group_dict ms) g) = length g"
    if "\<forall>k \<in> set g. k = ''None'' \<or> k \<in> model_name ` set ms"
    using that by (simp only: len) simp
qed
theorem model_group_entries_witness:
  "map (\<lambda>g. map (map_option model_name) (group_model_chunks g))
     (snd (snd (make_model_lists (list_lib 10 10) (inject_settings True True)
        (bare_armature ''Foo [C]'' [''A''] [[''A'', ''ghost'', ''None''], [''None'', ''A'']]
           [triangle_empty ''A''])
        [\<lparr>coord_filePath = ''p'', coord_name = ''root''\<rparr>] None)))
   = [[Some ''A'', None], [None, Some ''A'']]"
  using model_group_entries [OF surjective_pairing,
      where lib = "list_lib 10 10" and S = "inject_settings True True"
      and arm = "bare_armature ''Foo [C]'' [''A''] [[''A'', ''ghost'', ''None''], [''None'', ''A'']]
           [triangle_empty ''A'']"
      and coords = "[\<lparr>coord_filePath = ''p'', coord_name = ''root''\<rparr>]" and old_clump = None
      and k = "''A''" and pre = "[]" and post = "[''ghost'', ''None'']" and g = "[''None'', ''A'']"]
  by (simp add: make_model_lists_def make_models_def make_model_def build_model_def
      make_nud_mesh_counts triangle_vert_indices_def bare_loop_def bare_mesh_def bare_empty_def
      triangle_empty_def bare_armature_def list_lib_def inject_settings_def option_list_def
      card_insert_if coord_indices_dict_def dict_get_def dict_of_def resolve_names_def
      group_dict_def Let_def)

text \<open>
  Claim C1 as stated keeps every entry of a group, with the null reference for a key that
  names no model. The group with the keys \<open>A\<close>, \<open>ghost\<close> and \<open>None\<close>, where only \<open>A\<close>
  is a model of the clump, is exported with two entries: the entry \<open>ghost\<close> is removed.
\<close>

theorem model_group_entry_dropped_counterexample:
  "map (\<lambda>g. length (group_model_chunks g))
     (snd (snd (make_model_lists (list_lib 10 10) (inject_settings True True)
        (bare_armature ''Foo [C]'' [''A''] [[''A'', ''ghost'', ''None'']] [triangle_empty ''A''])
        [\<lparr>coord_filePath = ''p'', coord_name = ''root''\<rparr>] None)))
   = [2]
   \<and> length [''A'', ''ghost'', ''None''] = 3"
  by (simp add: make_model_lists_def make_models_def make_model_def build_model_def
      make_nud_mesh_counts triangle_vert_indices_def bare_loop_def bare_mesh_def bare_empty_def
      triangle_empty_def bare_armature_def list_lib_def inject_settings_def option_list_def
      card_insert_if coord_indices_dict_def dict_get_def dict_of_def resolve_names_def Let_def)

subsection \<open>Reuse of the existing clump\<close>

lemma export_armatures_append:
  "export_armatures lib S fs st (pre @ post) =
     (case export_armatures lib S fs st pre of
        Inl e \<Rightarrow> Inl e
      | Inr st' \<Rightarrow> export_armatures lib S fs st' post)"
  by (induction pre arbitrary: st) (simp_all split: sum.split)

lemma make_clump_no_bones_old:
  assumes "inject_to_xfbin S" and "\<not> export_bones S"
    and "get_clump lib x (cd_path arm) (clump_name_of (arm_name arm)) = Some old"
  shows "\<exists>c ds f. make_clump lib S x fresh arm = Inr (c, ds, f) \<and> coord_chunks c = coord_chunks old"
  using assms by (simp add: make_clump_def Let_def case_prod_unfold)

lemma make_clump_no_meshes_old:
  assumes "inject_to_xfbin S" and "\<not> export_meshes S"
    and "get_clump lib x (cd_path arm) (clump_name_of (arm_name arm)) = Some old"
  shows "\<exists>c ds f. make_clump lib S x fresh arm = Inr (c, ds, f)
            \<and> model_chunks c = model_chunks old \<and> model_groups c = model_groups old"
  using assms by (cases "export_bones S") (simp_all add: make_clump_def Let_def)

text \<open>
  Claim C5. In inject mode: with bone export disabled, the coordinate chunk list of the
  clump that \<open>make_clump\<close> returns is the list object of the existing clump (the same
  address, hence the same elements), whatever the mesh setting; and when there is no
  existing clump, \<open>make_clump\<close> raises. With mesh export disabled, the model list and
  the model groups are the list objects of the existing clump, whatever the bone setting;
  and when there is no existing clump, \<open>make_clump\<close> raises. An exception of
  \<open>make_clump\<close> for any armature of the collection is the outcome of the whole export,
  which then has written nothing.
\<close>

theorem reuse_existing_clump:
  assumes "inject_to_xfbin S"
  shows "(\<not> export_bones S
            \<and> get_clump lib x (cd_path arm) (clump_name_of (arm_name arm)) = Some old \<longrightarrow>
          (\<exists>c ds f. make_clump lib S x fresh arm = Inr (c, ds, f)
             \<and> coord_chunks c = coord_chunks old \<and> addr (coord_chunks c) = addr (coord_chunks old)))
       \<and> (\<not> export_bones S
            \<and> get_clump lib x (cd_path arm) (clump_name_of (arm_name arm)) = None \<longrightarrow>
          make_clump lib S x fresh arm = Inl CannotExportBones)
       \<and> (\<not> export_meshes S
            \<and> get_clump lib x (cd_path arm) (clump_name_of (arm_name arm)) = Some old \<longrightarrow>
          (\<exists>c ds f. make_clump lib S x fresh arm = Inr (c, ds, f)
             \<and> model_chunks c = model_chunks old \<and> model_groups c = model_groups old
             \<and> addr (model_chunks c) = addr (model_chunks old)
             \<and> addr (model_groups c) = addr (model_groups old)))
       \<and> (\<not> export_meshes S \<and> export_bones S
            \<and> get_clump lib x (cd_path arm) (clump_name_of (arm_name arm)) = None \<longrightarrow>
          make_clump lib S x fresh arm = Inl CannotExportMeshes)
       \<and> (make_clump lib S
              (fst (export_texture_chunks (add_chunk_page lib) fs (cd_texture_chunks arm) (es_xfbin st)))
              (es_fresh st) arm = Inl e \<longrightarrow>
          export_armature lib S fs st arm = Inl e)
       \<and> (existing = Some x0
            \<and> export_armatures lib S fs \<lparr>es_xfbin = x0, es_fresh = fresh0, es_diags = []\<rparr> pre = Inr st
            \<and> export_armature lib S fs st arm = Inl e
            \<and> filter (\<lambda>obj. arm_type obj = ARMATURE) objects = pre @ arm # post \<longrightarrow>
          export_collection lib S fs existing fresh0 objects = Raised e)"
proof (intro conjI impI)
  assume "\<not> export_bones S
      \<and> get_clump lib x (cd_path arm) (clump_name_of (arm_name arm)) = Some old"
  then have nb: "\<not> export_bones S"
    and g: "get_clump lib x (cd_path arm) (clump_name_of (arm_name arm)) = Some old"
    by simp_all
  obtain c ds f where "make_clump lib S x fresh arm = Inr (c, ds, f)"
    and "coord_chunks c = coord_chunks old"
    using make_clump_no_bones_old [OF assms nb g, of fresh] by blast
  then show "\<exists>c ds f. make_clump lib S x fresh arm = Inr (c, ds, f)
      \<and> coord_chunks c = coord_chunks old \<and> addr (coord_chunks c) = addr (coord_chunks old)"
    by simp
next
  assume "\<not> export_bones S
      \<and> get_clump lib x (cd_path arm) (clump_name_of (arm_name arm)) = None"
  then show "make_clump lib S x fresh arm = Inl CannotExportBones"
    using assms by (simp add: make_clump_def Let_def)
next
  assume "\<not> export_meshes S
      \<and> get_clump lib x (cd_path arm) (clump_name_of (arm_name arm)) = Some old"
  then have nm: "\<not> export_meshes S"
    and g: "get_clump lib x (cd_path arm) (clump_name_of (arm_name arm)) = Some old"
    by simp_all
  obtain c ds f where "make_clump lib S x fresh arm = Inr (c, ds, f)"
    and "model_chunks c = model_chunks old" and "model_groups c = model_groups old"
    using make_clump_no_meshes_old [OF assms nm g, of fresh] by blast
  then show "\<exists>c ds f. make_clump lib S x fresh arm = Inr (c, ds, f)
      \<and> model_chunks c = model_chunks old \<and> model_groups c = model_groups old
      \<and> addr (model_chunks c) = addr (model_chunks old)
      \<and> addr (model_groups c) = addr (model_groups old)"
    by simp
next
  assume "\<not> export_meshes S \<and> export_bones S
      \<and> get_clump lib x (cd_path arm) (clump_name_of (arm_name arm)) = None"
  then show "make_clump lib S x fresh arm = Inl CannotExportMeshes"
    using assms by (simp add: make_clump_def Let_def)
next
  assume "make_clump lib S
      (fst (export_texture_chunks (add_chunk_page lib) fs (cd_texture_chunks arm) (es_xfbin st)))
      (es_fresh st) arm = Inl e"
  then show "export_armature lib S fs st arm = Inl e"
    by (simp add: export_armature_def case_prod_unfold)
next
  assume h: "existing = Some x0
      \<and> export_armatures lib S fs \<lparr>es_xfbin = x0, es_fresh = fresh0, es_diags = []\<rparr> pre = Inr st
      \<and> export_armature lib S fs st arm = Inl e
      \<and> filter (\<lambda>obj. arm_type obj = ARMATURE) objects = pre @ arm # post"
  then have "export_armatures lib S fs \<lparr>es_xfbin = x0, es_fresh = fresh0, es_diags = []\<rparr>
      (pre @ arm # post) = Inl e"
    by (simp add: export_armatures_append)
  with h assms show "export_collection lib S fs existing fresh0 objects = Raised e"
    by (simp add: export_collection_def)
qed
theorem reuse_existing_clump_witness:
  "export_collection (list_lib 10 10) (inject_settings False False) Map.empty
     (Some [ClumpPage (existing_clump ''Foo'')]) 10 [bare_armature ''Foo [C]'' [] [] []]
   = Written [ClumpPage (existing_clump ''Foo''), ClumpPage (existing_clump ''Foo'')] []
   \<and> export_collection (list_lib 10 10) (inject_settings False False) Map.empty
     (Some [ClumpPage (existing_clump ''Foo'')]) 10
     [bare_armature ''Foo [C]'' [] [] [], bare_armature ''Bar [C]'' [] [] []]
   = Raised CannotExportBones
   \<and> export_collection (list_lib 10 10) (inject_settings False True) Map.empty
     (Some [ClumpPage (existing_clump ''Foo'')]) 10
     [bare_armature ''Foo [C]'' [] [] [], bare_armature ''Bar [C]'' [] [] []]
   = Raised CannotExportMeshes"
  using reuse_existing_clump [where S = "inject_settings False False" and lib = "list_lib 10 10"
      and x = "[ClumpPage (existing_clump ''Foo'')]" and arm = "bare_armature ''Foo [C]'' [] [] []"
      and old = "existing_clump ''Foo''" and fresh = 10 and fs = Map.empty
      and st = "\<lparr>es_xfbin = [ClumpPage (existing_clump ''Foo'')], es_fresh = 10, es_diags = []\<rparr>"
      and e = CannotExportBones and existing = "Some [ClumpPage (existing_clump ''Foo'')]"
      and x0 = "[ClumpPage (existing_clump ''Foo'')]" and fresh0 = 10 and pre = "[]" and post = "[]"
      and objects = "[bare_armature ''Foo [C]'' [] [] []]"]
    reuse_existing_clump [where S = "inject_settings False False" and lib = "list_lib 10 10"
      and x = "[ClumpPage (existing_clump ''Foo''), ClumpPage (existing_clump ''Foo'')]"
      and arm = "bare_armature ''Bar [C]'' [] [] []"
      and old = "existing_clump ''Foo''" and fresh = 10 and fs = Map.empty
      and st = "\<lparr>es_xfbin = [ClumpPage (existing_clump ''Foo''), ClumpPage (existing_clump ''Foo'')],
                 es_fresh = 10, es_diags = []\<rparr>"
      and e = CannotExportBones and existing = "Some [ClumpPage (existing_clump ''Foo'')]"
      and x0 = "[ClumpPage (existing_clump ''Foo'')]" and fresh0 = 10
      and pre = "[bare_armature ''Foo [C]'' [] [] []]" and post = "[]"
      and objects = "[bare_armature ''Foo [C]'' [] [] [], bare_armature ''Bar [C]'' [] [] []]"]
    reuse_existing_clump [where S = "inject_settings False True" and lib = "list_lib 10 10"
      and x = "[ClumpPage (existing_clump ''Foo''),
                ClumpPage ((existing_clump ''Foo'')
                  \<lparr>coord_chunks := Ref 10 [\<lparr>coord_filePath = ''p'', coord_name = ''root''\<rparr>]\<rparr>)]"
      and arm = "bare_armature ''Bar [C]'' [] [] []"
      and old = "existing_clump ''Foo''" and fresh = 11 and fs = Map.empty
      and st = "\<lparr>es_xfbin = [ClumpPage (existing_clump ''Foo''),
                ClumpPage ((existing_clump ''Foo'')
                  \<lparr>coord_chunks := Ref 10 [\<lparr>coord_filePath = ''p'', coord_name = ''root''\<rparr>]\<rparr>)],
                 es_fresh = 11, es_diags = []\<rparr>"
      and e = CannotExportMeshes and existing = "Some [ClumpPage (existing_clump ''Foo'')]"
      and x0 = "[ClumpPage (existing_clump ''Foo'')]" and fresh0 = 10
      and pre = "[bare_armature ''Foo [C]'' [] [] []]" and post = "[]"
      and objects = "[bare_armature ''Foo [C]'' [] [] [], bare_armature ''Bar [C]'' [] [] []]"]
  by (simp add: export_collection_def export_armature_def make_clump_def clump_name_of_def
      endswith_def list_lib_def inject_settings_def bare_armature_def existing_clump_def Let_def)

subsection \<open>Faces of an exported sub-mesh\<close>

lemma fromkeys_list_snoc:
  "fromkeys_list (xs @ [x]) =
     (if x \<in> set (fromkeys_list xs) then fromkeys_list xs else fromkeys_list xs @ [x])"
  by (simp add: fromkeys_list_def)

lemma set_fromkeys_list: "set (fromkeys_list xs) = set xs"
  by (induction xs rule: rev_induct) (auto simp: fromkeys_list_snoc, simp add: fromkeys_list_def)

lemma rank_in_append: "k \<in> set keys \<Longrightarrow> rank_in (keys @ rest) k = rank_in keys k"
  by (simp add: rank_in_def takeWhile_append1)

lemma rank_in_new: "k \<notin> set keys \<Longrightarrow> rank_in (keys @ [k]) k = length keys"
proof -
  assume "k \<notin> set keys"
  then have "takeWhile (\<lambda>x. x \<noteq> k) (keys @ [k]) = keys @ takeWhile (\<lambda>x. x \<noteq> k) [k]"
    by (intro takeWhile_append2) auto
  then show ?thesis
    by (simp add: rank_in_def)
qed

lemma rank_invD:
  "rank_inv acc \<Longrightarrow> k \<in> fst ` set (vertex_indices_dict acc)
    \<Longrightarrow> map_of (vertex_indices_dict acc) k = Some (rank_in (map fst (vertex_indices_dict acc)) k)"
  unfolding rank_inv_def by blast

lemma add_loop_key_list:
  "map fst (vertex_indices_dict (add_loop vg d acc l)) =
     (if vert_index l \<in> set (map fst (vertex_indices_dict acc))
      then map fst (vertex_indices_dict acc)
      else map fst (vertex_indices_dict acc) @ [vert_index l])"
  by (auto simp: add_loop_def map_of_None_iff)

lemma add_loop_rank_inv:
  assumes "rank_inv acc"
  shows "rank_inv (add_loop vg d acc l)"
proof (cases "vert_index l \<in> fst ` set (vertex_indices_dict acc)")
  case True
  then have "add_loop vg d acc l = acc"
    by (simp add: add_loop_def map_of_None_iff)
  with assms show ?thesis by simp
next
  case False
  let ?D = "vertex_indices_dict acc"
  have D': "vertex_indices_dict (add_loop vg d acc l) = ?D @ [(vert_index l, length ?D)]"
    using False by (simp add: add_loop_def map_of_None_iff)
  show ?thesis
    unfolding rank_inv_def D'
  proof
    fix k
    assume "k \<in> fst ` set (?D @ [(vert_index l, length ?D)])"
    then consider "k \<in> fst ` set ?D" | "k = vert_index l" "k \<notin> fst ` set ?D"
      by auto
    then show "map_of (?D @ [(vert_index l, length ?D)]) k
        = Some (rank_in (map fst (?D @ [(vert_index l, length ?D)])) k)"
    proof cases
      case 1
      then have "map_of ?D k = Some (rank_in (map fst ?D) k)"
        using assms by (intro rank_invD)
      moreover have "rank_in (map fst ?D @ [vert_index l]) k = rank_in (map fst ?D) k"
        using 1 by (intro rank_in_append) simp
      ultimately show ?thesis
        by (simp add: map_add_Some_iff)
    next
      case 2
      then have "map_of ?D k = None"
        by (simp add: map_of_None_iff)
      moreover have "rank_in (map fst ?D @ [k]) k = length (map fst ?D)"
        using 2 by (intro rank_in_new) simp
      ultimately show ?thesis
        using 2 by (simp add: map_add_def)
    qed
  qed
qed

lemma add_loop_extends:
  "\<exists>rest. map fst (vertex_indices_dict (add_loop vg d acc l))
             = map fst (vertex_indices_dict acc) @ rest"
  by (auto simp: add_loop_def)

lemma add_loop_key_present:
  "vert_index l \<in> fst ` set (vertex_indices_dict (add_loop vg d acc l))"
  using add_loop_present [of vg d acc l] by (simp add: map_of_None_iff)

lemma extends_mono:
  "fst ` set (vertex_indices_dict acc) \<subseteq> fst ` set (vertex_indices_dict (add_loop vg d acc l))"
  by (auto simp: add_loop_def)

lemma add_triangle_face_by:
  assumes "rank_inv acc"
  shows "acc_faces (add_triangle vg d acc t)
           = acc_faces acc @ [face_by (map fst (vertex_indices_dict (add_triangle vg d acc t))) t]
         \<and> rank_inv (add_triangle vg d acc t)
         \<and> (\<exists>rest. map fst (vertex_indices_dict (add_triangle vg d acc t))
                      = map fst (vertex_indices_dict acc) @ rest)"
proof -
  obtain l1 l2 l3 where t: "t = (l1, l2, l3)"
    by (cases t)
  define a1 where "a1 = add_loop vg d acc l1"
  define a2 where "a2 = add_loop vg d a1 l2"
  define a3 where "a3 = add_loop vg d a2 l3"
  let ?D = "vertex_indices_dict a3"
  have r3: "rank_inv a3"
    using assms by (simp add: a1_def a2_def a3_def add_loop_rank_inv)
  have k1: "vert_index l1 \<in> fst ` set ?D"
    using add_loop_key_present [of l1 vg d acc] extends_mono [of a1 vg d l2]
      extends_mono [of a2 vg d l3]
    by (auto simp: a1_def a2_def a3_def)
  have k2: "vert_index l2 \<in> fst ` set ?D"
    using add_loop_key_present [of l2 vg d a1] extends_mono [of a2 vg d l3]
    by (auto simp: a2_def a3_def)
  have k3: "vert_index l3 \<in> fst ` set ?D"
    using add_loop_key_present [of l3 vg d a2] by (simp add: a3_def)
  have look: "remap ?D l1 = rank_in (map fst ?D) (vert_index l1)"
    "remap ?D l2 = rank_in (map fst ?D) (vert_index l2)"
    "remap ?D l3 = rank_in (map fst ?D) (vert_index l3)"
    using rank_invD [OF r3 k1] rank_invD [OF r3 k2] rank_invD [OF r3 k3]
    by (simp_all add: remap_def)
  have res: "add_triangle vg d acc t
      = a3\<lparr>acc_faces := acc_faces a3 @ [(remap ?D l1, remap ?D l2, remap ?D l3)]\<rparr>"
    by (simp add: t add_triangle_def Let_def a1_def a2_def a3_def)
  have f3: "acc_faces a3 = acc_faces acc"
    by (simp add: a1_def a2_def a3_def add_loop_faces)
  have faces: "acc_faces (add_triangle vg d acc t)
      = acc_faces acc @ [face_by (map fst (vertex_indices_dict (add_triangle vg d acc t))) t]"
  proof -
    have dict: "vertex_indices_dict (add_triangle vg d acc t) = ?D"
      by (simp add: res)
    have "acc_faces (add_triangle vg d acc t)
        = acc_faces acc @ [(remap ?D l1, remap ?D l2, remap ?D l3)]"
      by (simp add: res f3)
    then show ?thesis
      unfolding dict by (simp add: look face_by_def t)
  qed
  have inv: "rank_inv (add_triangle vg d acc t)"
    using r3 by (simp add: res rank_inv_def)
  obtain m1 where m1: "map fst (vertex_indices_dict a1) = map fst (vertex_indices_dict acc) @ m1"
    using add_loop_extends [of vg d acc l1] by (auto simp: a1_def)
  obtain m2 where m2: "map fst (vertex_indices_dict a2) = map fst (vertex_indices_dict a1) @ m2"
    using add_loop_extends [of vg d a1 l2] by (auto simp: a2_def)
  obtain m3 where m3: "map fst ?D = map fst (vertex_indices_dict a2) @ m3"
    using add_loop_extends [of vg d a2 l3] by (auto simp: a3_def)
  have "map fst (vertex_indices_dict (add_triangle vg d acc t))
      = map fst (vertex_indices_dict acc) @ (m1 @ m2 @ m3)"
    by (simp add: res m1 m2 m3)
  with faces inv show ?thesis
    by blast
qed

lemma add_triangle_key_list:
  "map fst (vertex_indices_dict (add_triangle vg d acc (l1, l2, l3))) =
     foldl (\<lambda>ks x. if x \<in> set ks then ks else ks @ [x]) (map fst (vertex_indices_dict acc))
       [vert_index l1, vert_index l2, vert_index l3]"
  by (simp add: add_triangle_def Let_def add_loop_key_list)

lemma build_mesh_key_list:
  "map fst (vertex_indices_dict (build_mesh vg d tris)) = first_seen tris"
proof (induction tris rule: rev_induct)
  case Nil
  show ?case
    by (simp add: build_mesh_def empty_mesh_acc_def first_seen_def triangle_vert_indices_def
        fromkeys_list_def)
next
  case (snoc t tris)
  obtain l1 l2 l3 where t: "t = (l1, l2, l3)"
    by (cases t)
  have "first_seen (tris @ [t])
      = foldl (\<lambda>ks x. if x \<in> set ks then ks else ks @ [x]) (first_seen tris)
          [vert_index l1, vert_index l2, vert_index l3]"
    by (simp add: first_seen_def triangle_vert_indices_def fromkeys_list_def t)
  with snoc show ?case
    by (simp only: build_mesh_snoc t add_triangle_key_list)
qed

lemma face_by_append:
  assumes "set (triangle_vert_indices [t]) \<subseteq> set keys"
  shows "face_by (keys @ rest) t = face_by keys t"
proof -
  obtain l1 l2 l3 where t: "t = (l1, l2, l3)"
    by (cases t)
  have "vert_index l1 \<in> set keys" "vert_index l2 \<in> set keys" "vert_index l3 \<in> set keys"
    using assms by (simp_all add: triangle_vert_indices_def t)
  then show ?thesis
    by (simp add: face_by_def t rank_in_append)
qed

lemma build_mesh_faces: "acc_faces (build_mesh vg d tris) = remapped_faces tris"
proof -
  have "rank_inv (build_mesh vg d tris)
      \<and> acc_faces (build_mesh vg d tris)
          = map (face_by (map fst (vertex_indices_dict (build_mesh vg d tris)))) tris"
  proof (induction tris rule: rev_induct)
    case Nil
    show ?case
      by (simp add: build_mesh_def empty_mesh_acc_def rank_inv_def)
  next
    case (snoc t tris)
    let ?a = "build_mesh vg d tris"
    let ?b = "add_triangle vg d ?a t"
    have step: "acc_faces ?b = acc_faces ?a @ [face_by (map fst (vertex_indices_dict ?b)) t]"
      and inv: "rank_inv ?b"
      and ext: "\<exists>rest. map fst (vertex_indices_dict ?b) = map fst (vertex_indices_dict ?a) @ rest"
      using add_triangle_face_by [of ?a vg d t] snoc by blast+
    obtain rest where rest: "map fst (vertex_indices_dict ?b) = map fst (vertex_indices_dict ?a) @ rest"
      using ext by blast
    have keys: "map fst (vertex_indices_dict ?a) = first_seen tris"
      by (rule build_mesh_key_list)
    have old: "map (face_by (first_seen tris @ rest)) tris = map (face_by (first_seen tris)) tris"
    proof (rule map_cong [OF refl])
      fix t'
      assume "t' \<in> set tris"
      then have "set (triangle_vert_indices [t']) \<subseteq> set (triangle_vert_indices tris)"
        by (auto simp: triangle_vert_indices_def)
      then have "set (triangle_vert_indices [t']) \<subseteq> set (first_seen tris)"
        by (simp add: first_seen_def set_fromkeys_list)
      then show "face_by (first_seen tris @ rest) t' = face_by (first_seen tris) t'"
        by (rule face_by_append)
    qed
    have "acc_faces ?b = map (face_by (map fst (vertex_indices_dict ?b))) (tris @ [t])"
      using step snoc old by (simp add: rest keys)
    with inv show ?case
      by (simp add: build_mesh_snoc)
  qed
  then show ?thesis
    by (simp add: remapped_faces_def build_mesh_key_list)
qed

lemma make_nud_mesh_faces:
  "snd (make_nud_mesh MV MF d mats m) = Some (nm, mat)
    \<Longrightarrow> faces nm = remapped_faces (mo_loop_triangles m)"
  by (auto simp: make_nud_mesh_def Let_def build_mesh_faces split: if_splits option.splits)

text \<open>
  Claim C4, as the code has it. The exporter rejects no triangle. The face list built
  from the loop triangles has one face for every triangle, in traversal order, and the
  face has the output indices of the three corners of its triangle in their order, where
  the output index of a mesh vertex is its position in the order of first appearance.
  Different mesh vertices have different output indices, so a face has fewer than three
  distinct indices exactly when its triangle has fewer than three distinct mesh vertices.
  This face list is the face list of the sub-mesh whenever the sub-mesh is exported.
\<close>

theorem every_triangle_is_emitted:
  "acc_faces (build_mesh vg d tris) = remapped_faces tris
   \<and> length (remapped_faces tris) = length tris
   \<and> map degenerate_face (remapped_faces tris) = map degenerate_triangle tris
   \<and> (\<forall>nm mat. snd (make_nud_mesh MV MF d mats m) = Some (nm, mat) \<longrightarrow>
         faces nm = remapped_faces (mo_loop_triangles m))"
proof (intro conjI allI impI)
  show "acc_faces (build_mesh vg d tris) = remapped_faces tris"
    by (rule build_mesh_faces)
  show "length (remapped_faces tris) = length tris"
    by (simp add: remapped_faces_def)
  show "map degenerate_face (remapped_faces tris) = map degenerate_triangle tris"
    using build_mesh_degenerate [of vg d tris] by (simp add: build_mesh_faces)
  show "faces nm = remapped_faces (mo_loop_triangles m)"
    if "snd (make_nud_mesh MV MF d mats m) = Some (nm, mat)" for nm mat
    using that by (rule make_nud_mesh_faces)
qed

theorem every_triangle_is_emitted_witness:
  "map (\<lambda>r. faces (fst r))
     (option_list (snd (make_nud_mesh 10 10 Map.empty
        [''mat'' \<mapsto> \<lparr>mat_filePath = ''p'', mat_name = ''mat''\<rparr>]
        (bare_mesh ''quad'' ''mat''
          [(bare_loop 5, bare_loop 6, bare_loop 7), (bare_loop 7, bare_loop 5, bare_loop 8)]))))
     = [[(0, 1, 2), (2, 0, 3)]]"
  using every_triangle_is_emitted [where MV = 10 and MF = 10 and d = Map.empty
      and mats = "[''mat'' \<mapsto> \<lparr>mat_filePath = ''p'', mat_name = ''mat''\<rparr>]"
      and vg = "\<lambda>b. ''bone''"
      and tris = "[(bare_loop 5, bare_loop 6, bare_loop 7), (bare_loop 7, bare_loop 5, bare_loop 8)]"
      and m = "bare_mesh ''quad'' ''mat''
          [(bare_loop 5, bare_loop 6, bare_loop 7), (bare_loop 7, bare_loop 5, bare_loop 8)]"]
  by (simp add: make_nud_mesh_counts bare_mesh_def bare_loop_def option_list_def
      triangle_vert_indices_def card_insert_if remapped_faces_def first_seen_def
      fromkeys_list_def face_by_def rank_in_def)

text \<open>
  Claim C4 as stated rejects a triangle with fewer than three distinct output indices.
  A mesh object of the two loop triangles (5, 6, 7) and (5, 5, 6) has three mesh vertices,
  so its sub-mesh is exported: the model of its empty is built with no diagnostic, and the
  face list of its one sub-mesh holds the face (0, 0, 1), which has two distinct indices.
\<close>

theorem degenerate_triangle_counterexample:
  "fst (build_model 10 10 ''p'' Map.empty [''mat'' \<mapsto> \<lparr>mat_filePath = ''p'', mat_name = ''mat''\<rparr>]
     (bare_empty ''model'' ''root''
        [bare_mesh ''m'' ''mat''
           [(bare_loop 5, bare_loop 6, bare_loop 7), (bare_loop 5, bare_loop 5, bare_loop 6)]])) = []
   \<and> map (\<lambda>model. map faces (nud_meshes model))
        (snd (build_model 10 10 ''p'' Map.empty
           [''mat'' \<mapsto> \<lparr>mat_filePath = ''p'', mat_name = ''mat''\<rparr>]
           (bare_empty ''model'' ''root''
              [bare_mesh ''m'' ''mat''
                 [(bare_loop 5, bare_loop 6, bare_loop 7), (bare_loop 5, bare_loop 5, bare_loop 6)]])))
       = [[[(0, 1, 2), (0, 0, 1)]]]
   \<and> degenerate_face (0, 0, 1)"
  by (simp add: build_model_def bare_empty_def make_nud_mesh_counts bare_mesh_def bare_loop_def
      option_list_def triangle_vert_indices_def card_insert_if build_mesh_faces
      remapped_faces_def first_seen_def fromkeys_list_def face_by_def rank_in_def
      degenerate_face_def)

subsection \<open>Rounding\<close>

text \<open>
  Rounding moves a number by at most half the spacing of the floats around it, a number
  that is a float is not moved, and the result of rounding is a float.
\<close>

lemma round_to_even_error: "\<bar>of_int (round_to_even y) - y\<bar> \<le> 1 / 2"
proof -
  have "of_int \<lfloor>y\<rfloor> \<le> y" "y < of_int \<lfloor>y\<rfloor> + 1"
    by linarith+
  then show ?thesis
    by (auto simp: round_to_even_def Let_def)
qed

lemma round_to_even_of_int: "round_to_even (of_int n) = n"
  by (simp add: round_to_even_def)

lemma two_powi: "(2::real) powi k = 2 powr real_of_int k"
  by (simp add: powr_real_of_int')

lemma binade_bounds:
  assumes "x \<noteq> 0"
  shows "2 powi \<lfloor>log 2 \<bar>x\<bar>\<rfloor> \<le> \<bar>x\<bar>" and "\<bar>x\<bar> < 2 powi (\<lfloor>log 2 \<bar>x\<bar>\<rfloor> + 1)"
proof -
  have pos: "0 < \<bar>x\<bar>"
    using assms by simp
  have "2 powr of_int \<lfloor>log 2 \<bar>x\<bar>\<rfloor> \<le> 2 powr log 2 \<bar>x\<bar>"
    by (intro powr_mono) auto
  then show "2 powi \<lfloor>log 2 \<bar>x\<bar>\<rfloor> \<le> \<bar>x\<bar>"
    using pos by (simp add: two_powi)
  have "log 2 \<bar>x\<bar> < of_int (\<lfloor>log 2 \<bar>x\<bar>\<rfloor> + 1)"
    by linarith
  then have "2 powr log 2 \<bar>x\<bar> < 2 powr of_int (\<lfloor>log 2 \<bar>x\<bar>\<rfloor> + 1)"
    by (intro powr_less_mono) auto
  then show "\<bar>x\<bar> < 2 powi (\<lfloor>log 2 \<bar>x\<bar>\<rfloor> + 1)"
    using pos unfolding two_powi by simp
qed

lemma binade_eq:
  assumes "2 powi e \<le> \<bar>x\<bar>" and "\<bar>x\<bar> < 2 powi (e + 1)"
  shows "\<lfloor>log 2 \<bar>x\<bar>\<rfloor> = e"
proof -
  have "(0::real) < 2 powi e"
    by simp
  then have pos: "0 < \<bar>x\<bar>"
    using assms(1) by linarith
  have "2 powr of_int e \<le> \<bar>x\<bar>" "\<bar>x\<bar> < 2 powr of_int (e + 1)"
    using assms unfolding two_powi by blast+
  then have "of_int e \<le> log 2 \<bar>x\<bar>" "log 2 \<bar>x\<bar> < of_int (e + 1)"
    using pos by (simp_all add: le_log_iff log_less_iff del: of_int_add)
  then show ?thesis
    by linarith
qed

lemma round_float_in_binade:
  assumes "2 powi e \<le> \<bar>x\<bar>" and "\<bar>x\<bar> < 2 powi (e + 1)"
  shows "round_float prec emin x
    = of_int (round_to_even (x / 2 powi (max e emin - prec + 1))) * 2 powi (max e emin - prec + 1)"
proof -
  have "(0::real) < 2 powi e"
    by simp
  with assms(1) have "0 < \<bar>x\<bar>"
    by linarith
  then have "x \<noteq> 0"
    by simp
  then show ?thesis
    by (simp add: round_float_def Let_def binade_eq [OF assms])
qed

lemma round_float_error:
  "\<bar>round_float prec emin x - x\<bar> \<le> \<bar>x\<bar> * 2 powi (- prec) + 2 powi (emin - prec)"
proof (cases "x = 0")
  case True
  then show ?thesis
    by (simp add: round_float_def)
next
  case False
  define e where "e = max \<lfloor>log 2 \<bar>x\<bar>\<rfloor> emin"
  define ulp :: real where "ulp = 2 powi (e - prec + 1)"
  have ulp: "0 < ulp"
    by (simp add: ulp_def)
  have "\<bar>of_int (round_to_even (x / ulp)) - x / ulp\<bar> * ulp \<le> 1 / 2 * ulp"
    using round_to_even_error [of "x / ulp"] ulp by (intro mult_right_mono) auto
  moreover have "\<bar>of_int (round_to_even (x / ulp)) - x / ulp\<bar> * ulp
      = \<bar>of_int (round_to_even (x / ulp)) * ulp - x\<bar>"
  proof -
    have "of_int (round_to_even (x / ulp)) * ulp - x
        = (of_int (round_to_even (x / ulp)) - x / ulp) * ulp"
      using ulp by (simp add: field_simps)
    then show ?thesis
      using ulp by (simp add: abs_mult)
  qed
  moreover have "round_float prec emin x = of_int (round_to_even (x / ulp)) * ulp"
    using False by (simp add: round_float_def Let_def e_def ulp_def)
  ultimately have err: "\<bar>round_float prec emin x - x\<bar> \<le> ulp / 2"
    by linarith
  have half: "ulp / 2 = 2 powi (e - prec)"
    by (simp add: ulp_def power_int_add)
  have "2 powi (e - prec) \<le> \<bar>x\<bar> * 2 powi (- prec) + 2 powi (emin - prec)"
  proof (cases "emin \<le> \<lfloor>log 2 \<bar>x\<bar>\<rfloor>")
    case True
    then have "e = \<lfloor>log 2 \<bar>x\<bar>\<rfloor>"
      by (simp add: e_def)
    then have "2 powi e \<le> \<bar>x\<bar>"
      using binade_bounds(1) [OF False] by simp
    then have "2 powi e * 2 powi (- prec) \<le> \<bar>x\<bar> * 2 powi (- prec)"
      by (intro mult_right_mono) auto
    moreover have "(2::real) powi (e - prec) = 2 powi e * 2 powi (- prec)"
      by (simp add: power_int_diff power_int_minus field_simps)
    moreover have "(0::real) \<le> 2 powi (emin - prec)"
      by simp
    ultimately show ?thesis
      by linarith
  next
    case False
    then have "e = emin"
      by (simp add: e_def)
    moreover have "0 \<le> \<bar>x\<bar> * 2 powi (- prec)"
      by simp
    ultimately show ?thesis
      by simp
  qed
  with err half show ?thesis
    by simp
qed

lemma round_float_exact:
  assumes x: "x = of_int m * 2 powi j" and m: "\<bar>m\<bar> < 2 ^ nat prec" and j: "emin - prec + 1 \<le> j"
    and prec: "0 \<le> prec"
  shows "round_float prec emin x = x"
proof (cases "x = 0")
  case True
  then show ?thesis
    by (simp add: round_float_def)
next
  case False
  define e where "e = max \<lfloor>log 2 \<bar>x\<bar>\<rfloor> emin"
  define k where "k = e - prec + 1"
  have "\<bar>x\<bar> = of_int \<bar>m\<bar> * 2 powi j"
    by (simp add: x abs_mult)
  also have "\<dots> < of_int (2 ^ nat prec) * 2 powi j"
    using m by (intro mult_strict_right_mono) (simp_all del: of_int_power)
  also have "\<dots> = 2 powi (prec + j)"
  proof -
    have "real_of_int (2 ^ nat prec) = 2 powi prec"
      using prec by (simp add: power_int_def)
    then show ?thesis
      by (simp only: power_int_add [of "2::real" prec j, simplified])
  qed
  finally have "2 powi \<lfloor>log 2 \<bar>x\<bar>\<rfloor> < (2::real) powi (prec + j)"
    using binade_bounds(1) [OF False] by linarith
  then have "\<lfloor>log 2 \<bar>x\<bar>\<rfloor> < prec + j"
    using power_int_increasing [of "prec + j" "\<lfloor>log 2 \<bar>x\<bar>\<rfloor>" "2::real"]
    by (cases "\<lfloor>log 2 \<bar>x\<bar>\<rfloor> < prec + j") auto
  then have kj: "k \<le> j"
    using j by (simp add: k_def e_def)
  have "x / 2 powi k = of_int m * 2 powi (j - k)"
    by (simp add: x power_int_diff)
  also have "\<dots> = of_int (m * 2 ^ nat (j - k))"
    using kj by (simp add: power_int_def)
  finally have "round_to_even (x / 2 powi k) = m * 2 ^ nat (j - k)"
    by (simp only: round_to_even_of_int)
  then have "of_int (round_to_even (x / 2 powi k)) * 2 powi k = of_int m * 2 powi (j - k) * 2 powi k"
    using kj by (simp add: power_int_def)
  also have "\<dots> = x"
    by (simp add: x power_int_diff)
  finally show ?thesis
    using False by (simp add: round_float_def Let_def e_def k_def)
qed

lemma round_to_even_bound:
  assumes "\<bar>y\<bar> \<le> of_int N"
  shows "\<bar>round_to_even y\<bar> \<le> N"
proof -
  have "\<lfloor>y\<rfloor> \<le> round_to_even y" "round_to_even y \<le> \<lfloor>y\<rfloor> + 1"
    by (simp_all add: round_to_even_def Let_def)
  moreover have "- N \<le> \<lfloor>y\<rfloor>"
    using assms by (simp add: le_floor_iff abs_le_iff)
  moreover have "round_to_even y \<le> N"
  proof (cases "y = of_int N")
    case True
    then show ?thesis
      by (simp add: round_to_even_of_int)
  next
    case False
    then have "y < of_int N"
      using assms by linarith
    then have "\<lfloor>y\<rfloor> < N"
      by (simp add: floor_less_iff)
    with calculation(2) show ?thesis
      by linarith
  qed
  ultimately show ?thesis
    by linarith
qed

lemma round_float_exact_le:
  assumes x: "x = of_int m * 2 powi j" and m: "\<bar>m\<bar> \<le> 2 ^ nat prec" and j: "emin - prec + 1 \<le> j"
    and prec: "0 < prec"
  shows "round_float prec emin x = x"
proof (cases "\<bar>m\<bar> < 2 ^ nat prec")
  case True
  then show ?thesis
    using round_float_exact [OF x _ j] prec by simp
next
  case False
  then have eq: "\<bar>m\<bar> = 2 ^ nat prec"
    using m by linarith
  have "nat prec = Suc (nat (prec - 1))"
    using prec by linarith
  then have split: "(2::int) ^ nat prec = 2 * 2 ^ nat (prec - 1)"
    by (simp only: power_Suc)
  define m' where "m' = m div 2"
  have "2 dvd \<bar>m\<bar>"
    unfolding eq split by (rule dvd_triv_left)
  then have "2 dvd m"
    by simp
  then have m2: "m = 2 * m'"
    by (simp add: m'_def)
  have "x = of_int m' * 2 powi (j + 1)"
    by (simp add: x m2 power_int_add)
  moreover have "\<bar>m'\<bar> < 2 ^ nat prec"
  proof -
    have "2 * \<bar>m'\<bar> = 2 * 2 ^ nat (prec - 1)"
      using eq unfolding split by (simp add: m2 abs_mult)
    then have "\<bar>m'\<bar> = 2 ^ nat (prec - 1)"
      by linarith
    moreover have "(0::int) < 2 ^ nat (prec - 1)"
      by simp
    ultimately show ?thesis
      unfolding split by linarith
  qed
  ultimately show ?thesis
    using round_float_exact [of x m' "j + 1" prec emin] j prec by simp
qed

lemma round_float_idem:
  assumes prec: "0 < prec"
  shows "round_float prec emin (round_float prec emin x) = round_float prec emin x"
proof (cases "x = 0")
  case True
  then show ?thesis
    by (simp add: round_float_def)
next
  case False
  define e where "e = max \<lfloor>log 2 \<bar>x\<bar>\<rfloor> emin"
  define k where "k = e - prec + 1"
  define n where "n = round_to_even (x / 2 powi k)"
  have r: "round_float prec emin x = of_int n * 2 powi k"
    using False by (simp add: round_float_def Let_def e_def k_def n_def)
  have "\<bar>x\<bar> < 2 powi (\<lfloor>log 2 \<bar>x\<bar>\<rfloor> + 1)"
    by (rule binade_bounds(2) [OF False])
  also have "\<dots> \<le> 2 powi (e + 1)"
    by (intro power_int_increasing) (simp_all add: e_def)
  finally have "\<bar>x\<bar> / 2 powi k < 2 powi (e + 1) / 2 powi k"
    by (intro divide_strict_right_mono) simp_all
  also have "\<dots> = 2 powi prec"
    by (simp add: k_def power_int_diff [symmetric])
  also have "\<dots> = of_int (2 ^ nat prec)"
    using prec by (simp add: power_int_def)
  finally have "\<bar>x / 2 powi k\<bar> \<le> of_int (2 ^ nat prec)"
    by (simp add: abs_divide del: of_int_power)
  then have "\<bar>n\<bar> \<le> 2 ^ nat prec"
    unfolding n_def by (rule round_to_even_bound)
  moreover have "emin - prec + 1 \<le> k"
    by (simp add: k_def e_def)
  ultimately show ?thesis
    unfolding r using prec by (intro round_float_exact_le [OF refl])
qed

lemma fl32_idem: "fl32 (fl32 x) = fl32 x"
  by (simp add: fl32_def round_float_idem)

lemma fl32_error: "\<bar>fl32 x - x\<bar> \<le> \<bar>x\<bar> / 2 ^ 24 + 1 / 2 ^ 150"
proof -
  have "(2::real) powi (- 24) = 1 / 2 ^ 24" "(2::real) powi (- 126 - 24) = 1 / 2 ^ 150"
    by simp_all
  then show ?thesis
    using round_float_error [of 24 "- 126" x] by (simp only: fl32_def times_divide_eq_right mult_1_right)
qed

lemma fl32_of_int: "\<bar>m\<bar> \<le> 2 ^ 24 \<Longrightarrow> fl32 (of_int m) = of_int m"
  using round_float_exact_le [of "of_int m" m 0 24 "- 126"] by (simp add: fl32_def)

lemma fl32_100: "fl32 100 = 100"
  using fl32_of_int [of 100] by simp

lemma fl64_hundredth: "fl64 (1 / 100) = 5764607523034235 / 576460752303423488"
  unfolding fl64_def
  by (subst round_float_in_binade [where e = "- 7"])
     (simp_all add: round_to_even_def Let_def)

lemma fl32_hundredth: "fl32 (fl64 (1 / 100)) = 5368709 / 536870912"
  unfolding fl64_hundredth unfolding fl32_def
  by (subst round_float_in_binade [where e = "- 7"])
     (simp_all add: round_to_even_def Let_def)

lemma fl32_eval:
  "2 powi e \<le> \<bar>x\<bar> \<Longrightarrow> \<bar>x\<bar> < 2 powi (e + 1) \<Longrightarrow> - 126 \<le> e
    \<Longrightarrow> fl32 x = of_int (round_to_even (x / 2 powi (e - 23))) * 2 powi (e - 23)"
  using round_float_in_binade [of e x 24 "- 126"] by (simp add: fl32_def max_def)

subsection \<open>Position conversion\<close>

lemma to_scene_of_external:
  "pos_scaled_to_blender (pos_scaled_from_blender (x, y, z)) =
     (fl32 (fl32 (x * 100) * (5368709 / 536870912)),
      fl32 (fl32 (y * 100) * (5368709 / 536870912)),
      fl32 (fl32 (z * 100) * (5368709 / 536870912)))"
  by (simp add: pos_scaled_to_blender_def pos_scaled_from_blender_def pos_to_blender_def
      pos_from_blender_def pos_cm_to_m_def pos_m_to_cm_def vec_scale_def vector_def
      fl32_idem fl32_100 fl32_hundredth)

lemma to_external_of_scene:
  "pos_scaled_from_blender (pos_scaled_to_blender (x, y, z)) =
     (fl32 (fl32 (fl32 x * (5368709 / 536870912)) * 100),
      fl32 (fl32 (fl32 y * (5368709 / 536870912)) * 100),
      fl32 (fl32 (fl32 z * (5368709 / 536870912)) * 100))"
  by (simp add: pos_scaled_to_blender_def pos_scaled_from_blender_def pos_to_blender_def
      pos_from_blender_def pos_cm_to_m_def pos_m_to_cm_def vec_scale_def vector_def
      fl32_idem fl32_100 fl32_hundredth)

lemma scene_round_trip_error:
  assumes "\<bar>x\<bar> < 1000"
  shows "\<bar>fl32 (fl32 (x * 100) * (5368709 / 536870912)) - x\<bar> \<le> 15 / 100000"
proof -
  define y where "y = fl32 (x * 100)"
  define z where "z = fl32 (y * (5368709 / 536870912))"
  have E1: "\<bar>y - x * 100\<bar> \<le> \<bar>x\<bar> * 100 / 2 ^ 24 + 1 / 2 ^ 150"
    using fl32_error [of "x * 100"] by (simp add: y_def abs_mult)
  have E2: "\<bar>z - y * (5368709 / 536870912)\<bar> \<le> \<bar>y\<bar> * (5368709 / 536870912) / 2 ^ 24 + 1 / 2 ^ 150"
    using fl32_error [of "y * (5368709 / 536870912)"] by (simp add: z_def abs_mult)
  have "\<bar>z - x\<bar> \<le> 15 / 100000"
    using E1 E2 assms by (simp add: abs_if split: if_splits)
  then show ?thesis
    by (simp add: y_def z_def)
qed

lemma external_round_trip_error:
  assumes "\<bar>x\<bar> < 1000"
  shows "\<bar>fl32 (fl32 (x * (5368709 / 536870912)) * 100) - x\<bar> \<le> 15 / 100000"
proof -
  define y where "y = fl32 (x * (5368709 / 536870912))"
  define z where "z = fl32 (y * 100)"
  have E1: "\<bar>y - x * (5368709 / 536870912)\<bar>
      \<le> \<bar>x\<bar> * (5368709 / 536870912) / 2 ^ 24 + 1 / 2 ^ 150"
    using fl32_error [of "x * (5368709 / 536870912)"] by (simp add: y_def abs_mult)
  have E2: "\<bar>z - y * 100\<bar> \<le> \<bar>y\<bar> * 100 / 2 ^ 24 + 1 / 2 ^ 150"
    using fl32_error [of "y * 100"] by (simp add: z_def abs_mult)
  have "\<bar>z - x\<bar> \<le> 15 / 100000"
    using E1 E2 assms by (simp add: abs_if split: if_splits)
  then show ?thesis
    by (simp add: y_def z_def)
qed

lemma max_abs_diff_le:
  "\<bar>a - x\<bar> \<le> t \<Longrightarrow> \<bar>b - y\<bar> \<le> t \<Longrightarrow> \<bar>c - z\<bar> \<le> t
    \<Longrightarrow> max_abs_diff (a, b, c) (x, y, z) \<le> t"
  by (simp add: max_abs_diff_def)

text \<open>
  Claim C9, as the code has it. The exporter stores a scene position in the external
  format through \<open>pos_scaled_from_blender\<close>, which multiplies by 100; the importer
  reads it back through \<open>pos_scaled_to_blender\<close>, which multiplies by the single nearest
  to 0.01. Both products are rounded to single precision. For every position whose
  components are singles below 1000 in absolute value, the export followed by the import,
  and the import followed by the export, give the position again within 1.5e-4 in every
  component.
\<close>

theorem position_round_trip:
  assumes "vector p = p" and "max_abs_diff p (0, 0, 0) < 1000"
  shows "max_abs_diff (pos_scaled_to_blender (pos_scaled_from_blender p)) p \<le> 15 / 100000
       \<and> max_abs_diff (pos_scaled_from_blender (pos_scaled_to_blender p)) p \<le> 15 / 100000"
proof -
  obtain x y z where p: "p = (x, y, z)"
    by (cases p)
  have single: "fl32 x = x" "fl32 y = y" "fl32 z = z"
    using assms(1) by (simp_all add: p vector_def)
  have small: "\<bar>x\<bar> < 1000" "\<bar>y\<bar> < 1000" "\<bar>z\<bar> < 1000"
    using assms(2) by (simp_all add: p max_abs_diff_def)
  show ?thesis
    unfolding p to_scene_of_external to_external_of_scene single
    by (intro conjI max_abs_diff_le scene_round_trip_error external_round_trip_error small)
qed

theorem position_round_trip_witness:
  "max_abs_diff (pos_scaled_to_blender (pos_scaled_from_blender (1, 134, - 3 / 4))) (1, 134, - 3 / 4)
     \<le> 15 / 100000
   \<and> max_abs_diff (pos_scaled_from_blender (pos_scaled_to_blender (1, 134, - 3 / 4))) (1, 134, - 3 / 4)
     \<le> 15 / 100000"
proof -
  have "fl32 1 = 1" "fl32 134 = 134"
    using fl32_of_int [of 1] fl32_of_int [of 134] by simp_all
  moreover have "fl32 (- 3 / 4) = - 3 / 4"
    using round_float_exact_le [of "- 3 / 4" "- 3" "- 2" 24 "- 126"] by (simp add: fl32_def)
  ultimately show ?thesis
    using position_round_trip [of "(1, 134, - 3 / 4)"] by (simp add: vector_def max_abs_diff_def)
qed

text \<open>
  Claim C9 as stated has the tolerance 1e-5, and the factors the other way round. The
  position with the first component 5557453 / 32768, the single nearest to 169.6, and
  the other components 0 comes back, in either order of the two conversions, with the
  first component 11114905 / 65536: the difference is 1 / 65536, more than 1e-5. And the
  scene position (1, 2, 3) is exported as (100, 200, 300): going to external units
  multiplies by 100.
\<close>

theorem position_tolerance_counterexample:
  "vector (5557453 / 32768, 0, 0) = (5557453 / 32768, 0, 0)
   \<and> max_abs_diff (5557453 / 32768, 0, 0) (0, 0, 0) < 1000
   \<and> pos_scaled_to_blender (pos_scaled_from_blender (5557453 / 32768, 0, 0))
       = (11114905 / 65536, 0, 0)
   \<and> pos_scaled_from_blender (pos_scaled_to_blender (5557453 / 32768, 0, 0))
       = (11114905 / 65536, 0, 0)
   \<and> max_abs_diff (11114905 / 65536, 0, 0) (5557453 / 32768, 0, 0) > 1 / 100000
   \<and> pos_scaled_from_blender (1, 2, 3) = (100, 200, 300)"
proof -
  have z: "fl32 0 = 0"
    by (simp add: fl32_def round_float_def)
  have p: "fl32 (5557453 / 32768) = 5557453 / 32768"
    using round_float_exact_le [of "5557453 / 32768" 5557453 "- 15" 24 "- 126"]
    by (simp add: fl32_def)
  have b1: "fl32 (5557453 / 32768 * 100) = 16960"
    by (subst fl32_eval [where e = 14]) (simp_all add: round_to_even_def Let_def)
  have b2: "fl32 (16960 * (5368709 / 536870912)) = 11114905 / 65536"
    by (subst fl32_eval [where e = 7]) (simp_all add: round_to_even_def Let_def)
  have a1: "fl32 (5557453 / 32768 * (5368709 / 536870912)) = 14227079 / 8388608"
    by (subst fl32_eval [where e = 0]) (simp_all add: round_to_even_def Let_def)
  have a2: "fl32 (14227079 / 8388608 * 100) = 11114905 / 65536"
    by (subst fl32_eval [where e = 7]) (simp_all add: round_to_even_def Let_def)
  have i: "fl32 (1 * 100) = 100" "fl32 (2 * 100) = 200" "fl32 (3 * 100) = 300"
    using fl32_of_int [of 100] fl32_of_int [of 200] fl32_of_int [of 300] by simp_all
  have ext: "pos_scaled_from_blender (1, 2, 3) = (100, 200, 300)"
    using i by (simp add: pos_scaled_from_blender_def pos_from_blender_def pos_m_to_cm_def
        vec_scale_def vector_def fl32_idem fl32_100)
  have v: "vector (5557453 / 32768, 0, 0) = (5557453 / 32768, 0, 0)"
    unfolding vector_def prod.case p z by (rule refl)
  show ?thesis
    unfolding to_scene_of_external to_external_of_scene p b1 b2 a1 a2 v ext
    by (simp add: max_abs_diff_def z)
qed

end
